theory Spec2Isabelle
  imports Main "HOL-Library.AList" "HOL-Library.Sublist"
begin

section \<open>Python values, exceptions and the operating system\<close>

text \<open>
  The server (\<^verbatim>\<open>copilot_api_server.py\<close>) is a set of Flask routes over a small
  class \<^verbatim>\<open>CopilotExecutor\<close>. Everything it does beyond computing values goes through
  three library calls: \<^verbatim>\<open>os.path.exists\<close>, \<^verbatim>\<open>subprocess.run\<close> and
  \<^verbatim>\<open>datetime.now\<close>. The model makes the filesystem, the processes and the clock
  fields of a \<open>world\<close> and records every call of the first two in a log, so that "no
  subprocess was spawned" and "the path was checked first" are statements about the logs.
  Calls of \<^verbatim>\<open>logger\<close> have no effect on any result and are left out.

  A value that comes out of a JSON body, or goes into one, is a \<open>json\<close>: \<^verbatim>\<open>None\<close>,
  a \<^verbatim>\<open>bool\<close>, an \<^verbatim>\<open>int\<close>, a \<^verbatim>\<open>float\<close>, a \<^verbatim>\<open>str\<close>, a \<^verbatim>\<open>list\<close> or a
  \<^verbatim>\<open>dict\<close> with string keys, kept in insertion order. Of a float the model keeps only
  whether it is non-zero: the source can test it and pass it on, nothing else. A string is
  a list of characters of type \<open>char\<close>, which has 256 values: every string that the
  source writes is in that range, and text beyond it is outside the model.
\<close>

datatype json =
    JNull
  | JBool bool
  | JInt int
  | JFloat bool
  | JStr string
  | JList "json list"
  | JObj "(string \<times> json) list"

text \<open>\<^verbatim>\<open>bool(v)\<close>, the test behind \<^verbatim>\<open>if v:\<close> and \<^verbatim>\<open>if not v:\<close>.\<close>

fun truthy :: "json \<Rightarrow> bool" where
  "truthy JNull = False"
| "truthy (JBool b) = b"
| "truthy (JInt n) = (n \<noteq> 0)"
| "truthy (JFloat nonzero) = nonzero"
| "truthy (JStr s) = (s \<noteq> [])"
| "truthy (JList xs) = (xs \<noteq> [])"
| "truthy (JObj d) = (d \<noteq> [])"

text \<open>\<^verbatim>\<open>type(v).__name__\<close>, as the interpreter's error messages print it.\<close>

fun type_name :: "json \<Rightarrow> string" where
  "type_name JNull = ''NoneType''"
| "type_name (JBool b) = ''bool''"
| "type_name (JInt n) = ''int''"
| "type_name (JFloat nonzero) = ''float''"
| "type_name (JStr s) = ''str''"
| "type_name (JList xs) = ''list''"
| "type_name (JObj d) = ''dict''"

text \<open>
  An exception is a value: a function that may raise returns \<open>Raises e\<close>. The classes
  kept apart are the ones the source's \<^verbatim>\<open>except\<close> clauses tell apart and the ones
  the source or the interpreter raise by name; each carries the text that \<^verbatim>\<open>str(e)\<close>
  gives.
\<close>

datatype py_exn =
    TimeoutExpired string
  | ValueError string
  | KeyError string
  | TypeError string
  | OtherException string

fun str_exn :: "py_exn \<Rightarrow> string" where
  "str_exn (TimeoutExpired m) = m"
| "str_exn (ValueError m) = m"
| "str_exn (KeyError m) = m"
| "str_exn (TypeError m) = m"
| "str_exn (OtherException m) = m"

fun is_TimeoutExpired :: "py_exn \<Rightarrow> bool" where
  "is_TimeoutExpired (TimeoutExpired m) = True"
| "is_TimeoutExpired e = False"

datatype 'a outcome = Returns 'a | Raises py_exn

subsection \<open>Strings, lists and paths\<close>

text \<open>\<^verbatim>\<open>s.split(sep)\<close> for a one-character separator: never an empty list.\<close>

fun split_str :: "char \<Rightarrow> string \<Rightarrow> string list" where
  "split_str sep [] = [[]]"
| "split_str sep (c # cs) =
     (let r = split_str sep cs
      in if c = sep then [] # r else (c # hd r) # tl r)"

text \<open>\<^verbatim>\<open>sep.join(xs)\<close> for a list of strings.\<close>

fun join_str :: "string \<Rightarrow> string list \<Rightarrow> string" where
  "join_str sep [] = []"
| "join_str sep [x] = x"
| "join_str sep (x # y # ys) = x @ sep @ join_str sep (y # ys)"

text \<open>\<^verbatim>\<open>str(n)\<close> for a natural number.\<close>

fun str_nat :: "nat \<Rightarrow> string" where
  "str_nat n =
     (if n < 10 then [char_of (48 + n)]
      else str_nat (n div 10) @ [char_of (48 + n mod 10)])"

text \<open>The first element of a list that is not a string, with its index counted from \<open>i\<close>.\<close>

fun first_non_str :: "json list \<Rightarrow> nat \<Rightarrow> (nat \<times> json) option" where
  "first_non_str [] i = None"
| "first_non_str (JStr s # xs) i = first_non_str xs (Suc i)"
| "first_non_str (x # xs) i = Some (i, x)"

fun strs_of :: "json list \<Rightarrow> string list" where
  "strs_of [] = []"
| "strs_of (JStr s # xs) = s # strs_of xs"
| "strs_of (x # xs) = strs_of xs"

text \<open>
  \<^verbatim>\<open>sep.join(v)\<close> for any value \<open>v\<close>: a string is iterated character by character, a
  dictionary by its keys; a list must hold strings only; anything else is not iterable.
\<close>

definition str_join :: "string \<Rightarrow> json \<Rightarrow> string outcome" where
  "str_join sep v =
     (case v of
        JStr s \<Rightarrow> Returns (join_str sep (map (\<lambda>c. [c]) s))
      | JList xs \<Rightarrow>
          (case first_non_str xs 0 of
             None \<Rightarrow> Returns (join_str sep (strs_of xs))
           | Some (i, x) \<Rightarrow>
               Raises (TypeError (''sequence item '' @ str_nat i @ '': expected str instance, ''
                                  @ type_name x @ '' found'')))
      | JObj d \<Rightarrow> Returns (join_str sep (map fst d))
      | _ \<Rightarrow> Raises (TypeError ''can only join an iterable''))"

text \<open>\<^verbatim>\<open>xs + v\<close> for a list \<open>xs\<close> and any value \<open>v\<close>: only a list can be appended.\<close>

definition list_add :: "json list \<Rightarrow> json \<Rightarrow> json list outcome" where
  "list_add xs v =
     (case v of
        JList ys \<Rightarrow> Returns (xs @ ys)
      | _ \<Rightarrow> Raises (TypeError (''can only concatenate list (not '' @ [CHR 0x22] @ type_name v
                                 @ [CHR 0x22] @ '') to list'')))"

text \<open>\<^verbatim>\<open>os.path.join(a, b)\<close> of \<^verbatim>\<open>posixpath\<close>: an absolute \<open>b\<close> replaces \<open>a\<close>.\<close>

definition os_path_join :: "string \<Rightarrow> string \<Rightarrow> string" where
  "os_path_join a b =
     (if b \<noteq> [] \<and> hd b = CHR ''/'' then b
      else if a = [] \<or> last a = CHR ''/'' then a @ b
      else a @ ''/'' @ b)"

text \<open>\<^verbatim>\<open>a or b\<close> for an optional string \<open>a\<close>: \<^verbatim>\<open>None\<close> and \<^verbatim>\<open>''\<close> are falsy.\<close>

definition str_or :: "string option \<Rightarrow> string \<Rightarrow> string" where
  "str_or a b = (case a of None \<Rightarrow> b | Some s \<Rightarrow> if s = [] then b else s)"

subsection \<open>Processes\<close>

text \<open>
  What becomes of a process that \<^verbatim>\<open>subprocess.run\<close> is asked to start: it cannot be
  started (a missing binary, a permission error; the string is the text of the
  exception), it is still running when the timeout of the call expires (the string is
  the text of the \<^verbatim>\<open>TimeoutExpired\<close>), or it exits in time with an exit code and two
  streams of output. A stream is text, or bytes that do not decode (the string is the
  text of the \<^verbatim>\<open>UnicodeDecodeError\<close>).
\<close>

datatype captured = Text string | Undecodable string

datatype process =
    LaunchError string
  | TimesOut string
  | Exits int captured captured

text \<open>What \<^verbatim>\<open>subprocess.run(..., capture_output=True, text=True)\<close> returns.\<close>

datatype completed_process =
  CompletedProcess (cp_returncode: int) (cp_stdout: string) (cp_stderr: string)

type_synonym launch = "json list \<times> string"

text \<open>
  \<open>os_process w history command cwd timeout\<close> is what the operating system makes of the
  command line \<open>command\<close>, started in \<open>cwd\<close> with that timeout after the launches in
  \<open>history\<close>.
\<close>

record world =
  os_path_exists :: "string \<Rightarrow> bool"
  os_process :: "launch list \<Rightarrow> string list \<Rightarrow> string \<Rightarrow> nat \<Rightarrow> process"
  datetime_now :: string
  launched :: "launch list"
  probed :: "string list"

text \<open>
  \<^verbatim>\<open>subprocess.run(command, cwd=cwd, capture_output=True, text=True, timeout=timeout)\<close>:
  an argument that is not a string is a \<^verbatim>\<open>TypeError\<close> before anything starts;
  otherwise the process decides. Standard output is decoded before standard error.
\<close>

definition subprocess_run ::
  "world \<Rightarrow> launch list \<Rightarrow> json list \<Rightarrow> string \<Rightarrow> nat \<Rightarrow> completed_process outcome" where
  "subprocess_run w history command cwd timeout =
     (case first_non_str command 0 of
        Some (i, x) \<Rightarrow>
          Raises (TypeError (''expected str, bytes or os.PathLike object, not '' @ type_name x))
      | None \<Rightarrow>
          (case os_process w history (strs_of command) cwd timeout of
             LaunchError m \<Rightarrow> Raises (OtherException m)
           | TimesOut m \<Rightarrow> Raises (TimeoutExpired m)
           | Exits code out err \<Rightarrow>
               (case out of
                  Undecodable m \<Rightarrow> Raises (OtherException m)
                | Text out' \<Rightarrow>
                    (case err of
                       Undecodable m \<Rightarrow> Raises (OtherException m)
                     | Text err' \<Rightarrow> Returns (CompletedProcess code out' err')))))"

type_synonym 'a py = "world \<Rightarrow> 'a outcome \<times> world"

definition return_py :: "'a \<Rightarrow> 'a py" where
  "return_py x w = (Returns x, w)"

definition raise_py :: "py_exn \<Rightarrow> 'a py" where
  "raise_py e w = (Raises e, w)"

text \<open>Sequencing of two statements: an exception of the first skips the second.\<close>

definition bind_py :: "'a py \<Rightarrow> ('a \<Rightarrow> 'b py) \<Rightarrow> 'b py" where
  "bind_py m f w = (case m w of (Returns x, w') \<Rightarrow> f x w' | (Raises e, w') \<Rightarrow> (Raises e, w'))"

text \<open>An expression that may raise, evaluated without touching the world.\<close>

definition eval_py :: "'a outcome \<Rightarrow> 'a py" where
  "eval_py out w = (out, w)"

section \<open>Configuration\<close>

text \<open>The two environment variables read at import time; \<open>None\<close> is an unset variable.\<close>

record environ =
  env_REPOS_BASE_PATH :: "string option"
  env_ALLOWED_REPOS :: "string option"

definition getenv :: "string option \<Rightarrow> string \<Rightarrow> string" where
  "getenv v dflt = (case v of None \<Rightarrow> dflt | Some s \<Rightarrow> s)"

definition REPOS_BASE_PATH :: "environ \<Rightarrow> string" where
  "REPOS_BASE_PATH env = getenv (env_REPOS_BASE_PATH env) ''/var/repos''"

definition ALLOWED_REPOS :: "environ \<Rightarrow> string list" where
  "ALLOWED_REPOS env = split_str CHR '','' (getenv (env_ALLOWED_REPOS env) [])"

section \<open>CopilotExecutor\<close>

datatype executor = CopilotExecutor (repo_path: string)

text \<open>The dictionary that \<^verbatim>\<open>run_command\<close> returns has four fixed keys.\<close>

record command_result =
  success :: bool
  stdout :: string
  stderr :: string
  returncode :: int

definition validate_repo :: "executor \<Rightarrow> unit py" where
  "validate_repo self w =
     (let w1 = w\<lparr>probed := probed w @ [repo_path self]\<rparr>
      in if \<not> os_path_exists w (repo_path self)
         then (Raises (ValueError (''Repository path does not exist: '' @ repo_path self)), w1)
         else
           let git_dir = os_path_join (repo_path self) ''.git'';
               w2 = w1\<lparr>probed := probed w1 @ [git_dir]\<rparr>
           in if \<not> os_path_exists w git_dir
              then (Raises (ValueError (''Not a git repository: '' @ repo_path self)), w2)
              else (Returns (), w2))"

text \<open>
  \<^verbatim>\<open>run_command\<close>. Its three \<^verbatim>\<open>return\<close> statements (of the \<^verbatim>\<open>try\<close> body, of
  the \<^verbatim>\<open>TimeoutExpired\<close> handler and of the \<^verbatim>\<open>Exception\<close> handler) are
  \<open>command_result_of\<close>, a function of what \<^verbatim>\<open>subprocess.run\<close> did. The launch is
  logged whatever its outcome. The timeout is the constant 300 of the source.
\<close>

definition command_result_of :: "completed_process outcome \<Rightarrow> command_result" where
  "command_result_of out =
     (case out of
        Returns result \<Rightarrow>
          \<lparr>success = (cp_returncode result = 0),
           stdout = cp_stdout result,
           stderr = cp_stderr result,
           returncode = cp_returncode result\<rparr>
      | Raises e \<Rightarrow>
          if is_TimeoutExpired e
          then \<lparr>success = False,
                stdout = [],
                stderr = ''Command timed out after 5 minutes'',
                returncode = - 1\<rparr>
          else \<lparr>success = False,
                stdout = [],
                stderr = str_exn e,
                returncode = - 1\<rparr>)"

definition run_command :: "executor \<Rightarrow> json list \<Rightarrow> string option \<Rightarrow> command_result py" where
  "run_command self command cwd w =
     (let dir = str_or cwd (repo_path self)
      in (Returns (command_result_of (subprocess_run w (launched w) command dir 300)),
          w\<lparr>launched := launched w @ [(command, dir)]\<rparr>))"

text \<open>
  The five methods that build a command line. Two of them compute on \<^verbatim>\<open>files\<close>
  before they call \<^verbatim>\<open>run_command\<close>, and that computation can raise.
\<close>

definition execute_copilot :: "executor \<Rightarrow> json \<Rightarrow> json \<Rightarrow> command_result py" where
  "execute_copilot self prompt files =
     (let command = [JStr ''gh'', JStr ''copilot'', JStr ''suggest'']
      in bind_py
           (if truthy files
            then bind_py (eval_py (str_join '','' files))
                   (\<lambda>joined. return_py (command @ [JStr ''--files'', JStr joined]))
            else return_py command)
           (\<lambda>command. run_command self (command @ [prompt]) None))"

definition git_status :: "executor \<Rightarrow> command_result py" where
  "git_status self = run_command self [JStr ''git'', JStr ''status'', JStr ''--porcelain''] None"

definition git_add :: "executor \<Rightarrow> json \<Rightarrow> command_result py" where
  "git_add self files =
     bind_py
       (if truthy files
        then eval_py (list_add [JStr ''git'', JStr ''add''] files)
        else return_py [JStr ''git'', JStr ''add'', JStr ''-A''])
       (\<lambda>command. run_command self command None)"

definition git_commit :: "executor \<Rightarrow> json \<Rightarrow> command_result py" where
  "git_commit self message =
     run_command self [JStr ''git'', JStr ''commit'', JStr ''-m'', message] None"

definition git_push :: "executor \<Rightarrow> json \<Rightarrow> string \<Rightarrow> command_result py" where
  "git_push self branch remote =
     (let command = [JStr ''git'', JStr ''push'', JStr remote]
      in run_command self (if truthy branch then command @ [branch] else command) None)"

section \<open>Requests and responses\<close>

text \<open>
  The JSON body of a request: an object, of which the routes read five keys. A field is
  \<open>None\<close> when the key is missing. The fields \<^verbatim>\<open>prompt\<close>, \<^verbatim>\<open>commit_message\<close>,
  \<^verbatim>\<open>branch\<close> and \<^verbatim>\<open>files\<close> hold any JSON value. The field \<^verbatim>\<open>repo_name\<close> is a
  string when present (\<open>None\<close> also stands for \<^verbatim>\<open>null\<close>): a repository name of
  another type would need the interpreter's \<^verbatim>\<open>str()\<close> of an arbitrary value and
  never gets past \<^verbatim>\<open>os.path.join\<close>. Bodies that are not objects are outside the model.
\<close>

record request =
  repo_name :: "string option"
  prompt :: "json option"
  commit_message :: "json option"
  branch :: "json option"
  files :: "json option"

text \<open>\<^verbatim>\<open>data.get(key)\<close> and \<^verbatim>\<open>data.get(key, default)\<close>.\<close>

definition dict_get :: "json option \<Rightarrow> json" where
  "dict_get field = (case field of None \<Rightarrow> JNull | Some v \<Rightarrow> v)"

definition dict_get_default :: "json option \<Rightarrow> json \<Rightarrow> json" where
  "dict_get_default field dflt = (case field of None \<Rightarrow> dflt | Some v \<Rightarrow> v)"

text \<open>
  Python compares strings by code point, character by character; \<open>str_le\<close> is its
  \<^verbatim>\<open>\<le>\<close>. Flask's \<^verbatim>\<open>jsonify\<close> serialises with \<^verbatim>\<open>sort_keys=True\<close>, which the source
  never changes: in the body that the client receives, the keys of every object, at every
  depth, are in ascending order. \<open>sort_keys\<close> turns the value handed to \<^verbatim>\<open>jsonify\<close>
  into the value received.
\<close>

fun str_le :: "string \<Rightarrow> string \<Rightarrow> bool" where
  "str_le [] ys = True"
| "str_le (x # xs) [] = False"
| "str_le (x # xs) (y # ys) =
     (if x = y then str_le xs ys else (of_char x :: nat) < of_char y)"

fun insert_item :: "string \<times> json \<Rightarrow> (string \<times> json) list \<Rightarrow> (string \<times> json) list" where
  "insert_item x [] = [x]"
| "insert_item x (y # ys) = (if str_le (fst x) (fst y) then x # y # ys else y # insert_item x ys)"

fun sort_items :: "(string \<times> json) list \<Rightarrow> (string \<times> json) list" where
  "sort_items [] = []"
| "sort_items (x # xs) = insert_item x (sort_items xs)"

fun sort_keys :: "json \<Rightarrow> json"
  and sort_keys_items :: "(string \<times> json) list \<Rightarrow> (string \<times> json) list"
  and sort_keys_list :: "json list \<Rightarrow> json list" where
  "sort_keys (JObj d) = JObj (sort_items (sort_keys_items d))"
| "sort_keys (JList xs) = JList (sort_keys_list xs)"
| "sort_keys JNull = JNull"
| "sort_keys (JBool b) = JBool b"
| "sort_keys (JInt n) = JInt n"
| "sort_keys (JFloat nonzero) = JFloat nonzero"
| "sort_keys (JStr s) = JStr s"
| "sort_keys_items [] = []"
| "sort_keys_items ((k, v) # d) = (k, sort_keys v) # sort_keys_items d"
| "sort_keys_list [] = []"
| "sort_keys_list (x # xs) = sort_keys x # sort_keys_list xs"

text \<open>A response: the status code and the body as the client receives it.\<close>

record response =
  status :: nat
  body :: json

definition jsonify :: "(string \<times> json) list \<Rightarrow> nat \<Rightarrow> response" where
  "jsonify d code = \<lparr>status = code, body = sort_keys (JObj d)\<rparr>"

definition json_opt :: "string option \<Rightarrow> json" where
  "json_opt a = (case a of None \<Rightarrow> JNull | Some s \<Rightarrow> JStr s)"

text \<open>The dictionary of \<^verbatim>\<open>run_command\<close> and the dictionary of step results, as values.\<close>

definition result_dict :: "command_result \<Rightarrow> json" where
  "result_dict r =
     JObj [(''success'', JBool (success r)),
           (''stdout'', JStr (stdout r)),
           (''stderr'', JStr (stderr r)),
           (''returncode'', JInt (returncode r))]"

definition results_dict :: "(string \<times> command_result) list \<Rightarrow> json" where
  "results_dict d = JObj (map (\<lambda>(k, r). (k, result_dict r)) d)"

text \<open>
  \<^verbatim>\<open>if not x: return ...\<close> for an optional string: \<open>truthy_str x\<close> is \<open>None\<close> on the
  falsy values (\<^verbatim>\<open>None\<close>, \<^verbatim>\<open>''\<close>) and the string otherwise.
\<close>

definition truthy_str :: "string option \<Rightarrow> string option" where
  "truthy_str a = (case a of None \<Rightarrow> None | Some s \<Rightarrow> if s = [] then None else Some s)"

definition validate_request :: "environ \<Rightarrow> request \<Rightarrow> bool \<times> string option" where
  "validate_request env data =
     (case truthy_str (repo_name data) of
        None \<Rightarrow> (False, Some ''repo_name is required'')
      | Some name \<Rightarrow>
          if ALLOWED_REPOS env \<noteq> [] \<and> hd (ALLOWED_REPOS env) \<noteq> []
             \<and> name \<notin> set (ALLOWED_REPOS env)
          then (False, Some (''Repository '' @ name @ '' is not allowed''))
          else (True, None))"

text \<open>The handler that closes every route: \<^verbatim>\<open>except Exception as e\<close>.\<close>

definition except_Exception :: "response py \<Rightarrow> world \<Rightarrow> response \<times> world" where
  "except_Exception m w =
     (case m w of
        (Returns r, w') \<Rightarrow> (r, w')
      | (Raises e, w') \<Rightarrow> (jsonify [(''error'', JStr (str_exn e))] 500, w'))"

definition now_isoformat :: "string py" where
  "now_isoformat w = (Returns (datetime_now w), w)"

section \<open>The routes\<close>

text \<open>\<^verbatim>\<open>POST /api/copilot/execute\<close> (the route function \<^verbatim>\<open>execute_copilot\<close>).\<close>

definition execute_copilot_route :: "environ \<Rightarrow> request \<Rightarrow> world \<Rightarrow> response \<times> world" where
  "execute_copilot_route env data =
     except_Exception
      (let (is_valid, error_msg) = validate_request env data
       in if \<not> is_valid then return_py (jsonify [(''error'', json_opt error_msg)] 400)
          else
           (case repo_name data of
              None \<Rightarrow> raise_py (KeyError (CHR 0x27 # ''repo_name'' @ [CHR 0x27]))
            | Some name \<Rightarrow>
               let prompt' = dict_get (prompt data);
                   files' = dict_get_default (files data) (JList [])
               in if \<not> truthy prompt'
                  then return_py (jsonify [(''error'', JStr ''prompt is required'')] 400)
                  else
                   let path = os_path_join (REPOS_BASE_PATH env) name;
                       executor = CopilotExecutor path
                   in bind_py (validate_repo executor) (\<lambda>_.
                      bind_py (execute_copilot executor prompt' files') (\<lambda>result.
                      bind_py (git_status executor) (\<lambda>status'.
                      bind_py now_isoformat (\<lambda>timestamp.
                      return_py (jsonify
                        [(''success'', JBool (success result)),
                         (''output'', JStr (stdout result)),
                         (''error'', JStr (stderr result)),
                         (''git_status'', JStr (stdout status')),
                         (''timestamp'', JStr timestamp)] 200)))))))"

text \<open>
  \<^verbatim>\<open>POST /api/git/commit-and-push\<close>. The dictionary \<^verbatim>\<open>results\<close> is filled step by
  step as in the source; no \<^verbatim>\<open>return\<close> of the source reads it.
\<close>

definition commit_and_push :: "environ \<Rightarrow> request \<Rightarrow> world \<Rightarrow> response \<times> world" where
  "commit_and_push env data =
     except_Exception
      (let (is_valid, error_msg) = validate_request env data
       in if \<not> is_valid then return_py (jsonify [(''error'', json_opt error_msg)] 400)
          else
           (case repo_name data of
              None \<Rightarrow> raise_py (KeyError (CHR 0x27 # ''repo_name'' @ [CHR 0x27]))
            | Some name \<Rightarrow>
               let message = dict_get (commit_message data);
                   branch' = dict_get (branch data);
                   files' = dict_get (files data)
               in if \<not> truthy message
                  then return_py (jsonify [(''error'', JStr ''commit_message is required'')] 400)
                  else
                   let path = os_path_join (REPOS_BASE_PATH env) name;
                       executor = CopilotExecutor path
                   in bind_py (validate_repo executor) (\<lambda>_.
                      let results = [] in
                      bind_py (git_add executor files') (\<lambda>add_result.
                      let results = AList.update ''add'' add_result results in
                      if \<not> success add_result
                      then return_py (jsonify
                             [(''error'', JStr ''Failed to stage files''),
                              (''details'', JStr (stderr add_result))] 500)
                      else
                      bind_py (git_commit executor message) (\<lambda>commit_result.
                      let results = AList.update ''commit'' commit_result results in
                      if \<not> success commit_result
                      then return_py (jsonify
                             [(''error'', JStr ''Failed to commit''),
                              (''details'', JStr (stderr commit_result))] 500)
                      else
                      bind_py (git_push executor branch' ''origin'') (\<lambda>push_result.
                      let results = AList.update ''push'' push_result results in
                      if \<not> success push_result
                      then return_py (jsonify
                             [(''error'', JStr ''Failed to push''),
                              (''details'', JStr (stderr push_result))] 500)
                      else
                      bind_py now_isoformat (\<lambda>timestamp.
                      return_py (jsonify
                        [(''success'', JBool True),
                         (''message'', JStr ''Changes committed and pushed successfully''),
                         (''results'', JObj
                            [(''add'', JStr (stdout add_result)),
                             (''commit'', JStr (stdout commit_result)),
                             (''push'', JStr (stdout push_result))]),
                         (''timestamp'', JStr timestamp)] 200))))))))"

text \<open>\<^verbatim>\<open>POST /api/workflow/copilot-commit-push\<close>.\<close>

definition copilot_commit_push_workflow :: "environ \<Rightarrow> request \<Rightarrow> world \<Rightarrow> response \<times> world" where
  "copilot_commit_push_workflow env data =
     except_Exception
      (let (is_valid, error_msg) = validate_request env data
       in if \<not> is_valid then return_py (jsonify [(''error'', json_opt error_msg)] 400)
          else
           (case repo_name data of
              None \<Rightarrow> raise_py (KeyError (CHR 0x27 # ''repo_name'' @ [CHR 0x27]))
            | Some name \<Rightarrow>
               let prompt' = dict_get (prompt data);
                   message = dict_get (commit_message data);
                   branch' = dict_get (branch data);
                   files' = dict_get (files data)
               in if \<not> truthy prompt'
                  then return_py (jsonify [(''error'', JStr ''prompt is required'')] 400)
                  else if \<not> truthy message
                  then return_py (jsonify [(''error'', JStr ''commit_message is required'')] 400)
                  else
                   let path = os_path_join (REPOS_BASE_PATH env) name;
                       executor = CopilotExecutor path
                   in bind_py (validate_repo executor) (\<lambda>_.
                      let workflow_results = [] in
                      bind_py (execute_copilot executor prompt' files') (\<lambda>copilot_result.
                      let workflow_results = AList.update ''copilot'' copilot_result workflow_results in
                      if \<not> success copilot_result
                      then return_py (jsonify
                             [(''error'', JStr ''Copilot execution failed''),
                              (''details'', JStr (stderr copilot_result)),
                              (''workflow_results'', results_dict workflow_results)] 500)
                      else
                      bind_py (git_add executor files') (\<lambda>add_result.
                      let workflow_results = AList.update ''add'' add_result workflow_results in
                      if \<not> success add_result
                      then return_py (jsonify
                             [(''error'', JStr ''Failed to stage files''),
                              (''details'', JStr (stderr add_result)),
                              (''workflow_results'', results_dict workflow_results)] 500)
                      else
                      bind_py (git_commit executor message) (\<lambda>commit_result.
                      let workflow_results = AList.update ''commit'' commit_result workflow_results in
                      if \<not> success commit_result
                      then return_py (jsonify
                             [(''error'', JStr ''Failed to commit''),
                              (''details'', JStr (stderr commit_result)),
                              (''workflow_results'', results_dict workflow_results)] 500)
                      else
                      bind_py (git_push executor branch' ''origin'') (\<lambda>push_result.
                      let workflow_results = AList.update ''push'' push_result workflow_results in
                      if \<not> success push_result
                      then return_py (jsonify
                             [(''error'', JStr ''Failed to push''),
                              (''details'', JStr (stderr push_result)),
                              (''workflow_results'', results_dict workflow_results)] 500)
                      else
                      bind_py now_isoformat (\<lambda>timestamp.
                      return_py (jsonify
                        [(''success'', JBool True),
                         (''message'', JStr ''Copilot workflow completed successfully''),
                         (''workflow_results'', results_dict workflow_results),
                         (''timestamp'', JStr timestamp)] 200)))))))))"

section \<open>Vocabulary of the theorems\<close>

text \<open>
  The result of launching \<open>c\<close> (a command and its working directory) after the
  launches in \<open>history\<close>, as \<^verbatim>\<open>run_command\<close> reports it.
\<close>

definition launch_result :: "world \<Rightarrow> launch list \<Rightarrow> launch \<Rightarrow> command_result" where
  "launch_result w history c = command_result_of (subprocess_run w history (fst c) (snd c) 300)"

text \<open>
  The command lines that the five methods of the executor build, by name; the two that
  compute on \<^verbatim>\<open>files\<close> can raise instead.
\<close>

definition copilot_command :: "json \<Rightarrow> json \<Rightarrow> json list outcome" where
  "copilot_command text names =
     (if truthy names
      then (case str_join '','' names of
              Raises e \<Rightarrow> Raises e
            | Returns joined \<Rightarrow>
                Returns [JStr ''gh'', JStr ''copilot'', JStr ''suggest'',
                         JStr ''--files'', JStr joined, text])
      else Returns [JStr ''gh'', JStr ''copilot'', JStr ''suggest'', text])"

definition status_command :: "json list" where
  "status_command = [JStr ''git'', JStr ''status'', JStr ''--porcelain'']"

definition add_command :: "json \<Rightarrow> json list outcome" where
  "add_command names =
     (if truthy names then list_add [JStr ''git'', JStr ''add''] names
      else Returns [JStr ''git'', JStr ''add'', JStr ''-A''])"

definition commit_command :: "json \<Rightarrow> json list" where
  "commit_command message = [JStr ''git'', JStr ''commit'', JStr ''-m'', message]"

definition push_command :: "json \<Rightarrow> string \<Rightarrow> json list" where
  "push_command target remote =
     [JStr ''git'', JStr ''push'', JStr remote] @ (if truthy target then [target] else [])"

text \<open>
  A value of \<^verbatim>\<open>files\<close> on which neither method raises: a falsy one ("stage all", no
  \<^verbatim>\<open>--files\<close>), or a list of strings.
\<close>

definition plain_files :: "json \<Rightarrow> bool" where
  "plain_files v =
     (if truthy v then (case v of JList xs \<Rightarrow> first_non_str xs 0 = None | _ \<Rightarrow> False)
      else True)"

text \<open>The subprocesses a route launches, in order, when it serves a request in \<open>w\<close>.\<close>

definition launches_of :: "(world \<Rightarrow> response \<times> world) \<Rightarrow> world \<Rightarrow> launch list" where
  "launches_of route w = drop (length (launched w)) (launched (snd (route w)))"

text \<open>A step has failed when its call did not return a result with \<open>success = True\<close>.\<close>

definition failed :: "command_result outcome \<Rightarrow> bool" where
  "failed out = (case out of Returns r \<Rightarrow> \<not> success r | Raises e \<Rightarrow> True)"

definition json_get :: "json \<Rightarrow> string \<Rightarrow> json option" where
  "json_get j k = (case j of JObj d \<Rightarrow> map_of d k | _ \<Rightarrow> None)"

definition json_keys :: "json \<Rightarrow> string list" where
  "json_keys j = (case j of JObj d \<Rightarrow> map fst d | _ \<Rightarrow> [])"

text \<open>
  The workflow as the specification words it: the steps run in order, each result is
  recorded under the step's name, and the first failing step is the last one run.
\<close>

fun run_until_failure ::
  "(string \<times> command_result py) list \<Rightarrow> world \<Rightarrow> (string \<times> command_result) list \<times> world" where
  "run_until_failure [] w = ([], w)"
| "run_until_failure ((name, step) # rest) w =
     (case step w of
        (Raises e, w') \<Rightarrow> ([], w')
      | (Returns r, w') \<Rightarrow>
          if success r
          then (let (rs, w'') = run_until_failure rest w' in ((name, r) # rs, w''))
          else ([(name, r)], w'))"

subsection \<open>Concrete worlds\<close>

definition demo_env :: "string option \<Rightarrow> environ" where
  "demo_env allowed = \<lparr>env_REPOS_BASE_PATH = None, env_ALLOWED_REPOS = allowed\<rparr>"

definition demo_request :: "string \<Rightarrow> request" where
  "demo_request name =
     \<lparr>repo_name = Some name, prompt = Some (JStr ''add tests''),
      commit_message = Some (JStr ''fix''), branch = None, files = None\<rparr>"

definition exits :: "int \<Rightarrow> string \<Rightarrow> string \<Rightarrow> process" where
  "exits code out err = Exits code (Text out) (Text err)"

text \<open>A process behaviour: the commands that start with \<open>pre\<close> do \<open>bad\<close>, all others exit with 0.\<close>

definition only :: "string list \<Rightarrow> process \<Rightarrow> string list \<Rightarrow> process" where
  "only pre bad command = (if take (length pre) command = pre then bad else exits 0 ''ok'' [])"

text \<open>
  A world with one checkout, \<^verbatim>\<open>/var/repos/demo\<close>, one directory that is not a
  checkout, \<^verbatim>\<open>/var/repos/plain\<close>, and a scripted process behaviour.
\<close>

definition demo_world :: "(string list \<Rightarrow> process) \<Rightarrow> world" where
  "demo_world behaviour =
     \<lparr>os_path_exists =
        (\<lambda>p. p = ''/var/repos/demo'' \<or> p = ''/var/repos/demo/.git'' \<or> p = ''/var/repos/plain''),
      os_process = (\<lambda>history command cwd timeout. behaviour command),
      datetime_now = ''2024-01-01T00:00:00'',
      launched = [],
      probed = []\<rparr>"

section \<open>Symbolic evaluation of the routes\<close>

text \<open>
  Helper lemmas. \<^verbatim>\<open>run_command\<close> with the default \<^verbatim>\<open>cwd\<close> always returns, and
  logs one launch in the repository path; a method either raises while it builds its
  command line, touching nothing, or is one such launch; each route is then a chain of
  conditionals on the results of its launches.
\<close>

lemma run_command_nf:
  "run_command self command None w =
     (Returns (launch_result w (launched w) (command, repo_path self)),
      w\<lparr>launched := launched w @ [(command, repo_path self)]\<rparr>)"
  by (simp add: run_command_def launch_result_def str_or_def Let_def)

lemmas py_defs =
  bind_py_def return_py_def raise_py_def eval_py_def except_Exception_def now_isoformat_def

lemma step_nf:
  "execute_copilot self prompt' files' w =
     (case copilot_command prompt' files' of
        Raises e \<Rightarrow> (Raises e, w)
      | Returns c \<Rightarrow>
          (Returns (launch_result w (launched w) (c, repo_path self)),
           w\<lparr>launched := launched w @ [(c, repo_path self)]\<rparr>))"
  "git_status self w =
     (Returns (launch_result w (launched w) (status_command, repo_path self)),
      w\<lparr>launched := launched w @ [(status_command, repo_path self)]\<rparr>)"
  "git_add self files' w =
     (case add_command files' of
        Raises e \<Rightarrow> (Raises e, w)
      | Returns c \<Rightarrow>
          (Returns (launch_result w (launched w) (c, repo_path self)),
           w\<lparr>launched := launched w @ [(c, repo_path self)]\<rparr>))"
  "git_commit self message w =
     (Returns (launch_result w (launched w) (commit_command message, repo_path self)),
      w\<lparr>launched := launched w @ [(commit_command message, repo_path self)]\<rparr>)"
  "git_push self branch' remote w =
     (Returns (launch_result w (launched w) (push_command branch' remote, repo_path self)),
      w\<lparr>launched := launched w @ [(push_command branch' remote, repo_path self)]\<rparr>)"
  by (simp_all add: execute_copilot_def git_status_def git_add_def git_commit_def git_push_def
      copilot_command_def status_command_def add_command_def commit_command_def push_command_def
      run_command_nf py_defs Let_def split: outcome.split)

lemma subprocess_run_same_os [simp]:
  "subprocess_run (w\<lparr>launched := l\<rparr>) = subprocess_run w"
  "subprocess_run (w\<lparr>probed := p\<rparr>) = subprocess_run w"
  by (simp_all add: subprocess_run_def fun_eq_iff split: option.split)

lemma launch_result_same_os [simp]:
  "launch_result (w\<lparr>launched := l\<rparr>) = launch_result w"
  "launch_result (w\<lparr>probed := p\<rparr>) = launch_result w"
  by (simp_all add: launch_result_def fun_eq_iff)

lemma validate_repo_world:
  "\<exists>p. snd (validate_repo ex w) = w\<lparr>probed := p\<rparr>"
  by (auto simp: validate_repo_def Let_def)

lemma commit_and_push_reached:
  fixes env data w name a
  defines "ex \<equiv> CopilotExecutor (os_path_join (REPOS_BASE_PATH env) name)"
  defines "h \<equiv> launched w"
  defines "c1 \<equiv> (a, repo_path ex)"
  defines "c2 \<equiv> (commit_command (dict_get (commit_message data)), repo_path ex)"
  defines "c3 \<equiv> (push_command (dict_get (branch data)) ''origin'', repo_path ex)"
  defines "r1 \<equiv> launch_result w h c1"
  defines "r2 \<equiv> launch_result w (h @ [c1]) c2"
  defines "r3 \<equiv> launch_result w (h @ [c1, c2]) c3"
  assumes "fst (validate_request env data)" "repo_name data = Some name"
    "truthy (dict_get (commit_message data))"
    "validate_repo ex w = (Returns (), w\<lparr>probed := p\<rparr>)"
    "add_command (dict_get (files data)) = Returns a"
  shows "commit_and_push env data w =
    (if \<not> success r1 then
       (jsonify [(''error'', JStr ''Failed to stage files''), (''details'', JStr (stderr r1))] 500,
        w\<lparr>probed := p, launched := h @ [c1]\<rparr>)
     else if \<not> success r2 then
       (jsonify [(''error'', JStr ''Failed to commit''), (''details'', JStr (stderr r2))] 500,
        w\<lparr>probed := p, launched := h @ [c1, c2]\<rparr>)
     else if \<not> success r3 then
       (jsonify [(''error'', JStr ''Failed to push''), (''details'', JStr (stderr r3))] 500,
        w\<lparr>probed := p, launched := h @ [c1, c2, c3]\<rparr>)
     else
       (jsonify [(''success'', JBool True),
                 (''message'', JStr ''Changes committed and pushed successfully''),
                 (''results'', JObj [(''add'', JStr (stdout r1)), (''commit'', JStr (stdout r2)),
                                     (''push'', JStr (stdout r3))]),
                 (''timestamp'', JStr (datetime_now w))] 200,
        w\<lparr>probed := p, launched := h @ [c1, c2, c3]\<rparr>))"
proof -
  obtain m where v: "validate_request env data = (True, m)"
    using assms(9) by (cases "validate_request env data") auto
  show ?thesis
    unfolding commit_and_push_def
    using assms(10-13)
    by (simp add: v Let_def py_defs step_nf
        ex_def h_def c1_def c2_def c3_def r1_def r2_def r3_def del: sort_keys.simps)
qed

lemma workflow_reached:
  fixes env data w name g a
  defines "ex \<equiv> CopilotExecutor (os_path_join (REPOS_BASE_PATH env) name)"
  defines "h \<equiv> launched w"
  defines "c0 \<equiv> (g, repo_path ex)"
  defines "c1 \<equiv> (a, repo_path ex)"
  defines "c2 \<equiv> (commit_command (dict_get (commit_message data)), repo_path ex)"
  defines "c3 \<equiv> (push_command (dict_get (branch data)) ''origin'', repo_path ex)"
  defines "r0 \<equiv> launch_result w h c0"
  defines "r1 \<equiv> launch_result w (h @ [c0]) c1"
  defines "r2 \<equiv> launch_result w (h @ [c0, c1]) c2"
  defines "r3 \<equiv> launch_result w (h @ [c0, c1, c2]) c3"
  assumes "fst (validate_request env data)" "repo_name data = Some name"
    "truthy (dict_get (prompt data))"
    "truthy (dict_get (commit_message data))"
    "validate_repo ex w = (Returns (), w\<lparr>probed := p\<rparr>)"
    "copilot_command (dict_get (prompt data)) (dict_get (files data)) = Returns g"
    "add_command (dict_get (files data)) = Returns a"
  shows "copilot_commit_push_workflow env data w =
    (if \<not> success r0 then
       (jsonify [(''error'', JStr ''Copilot execution failed''), (''details'', JStr (stderr r0)),
                 (''workflow_results'', results_dict [(''copilot'', r0)])] 500,
        w\<lparr>probed := p, launched := h @ [c0]\<rparr>)
     else if \<not> success r1 then
       (jsonify [(''error'', JStr ''Failed to stage files''), (''details'', JStr (stderr r1)),
                 (''workflow_results'', results_dict [(''copilot'', r0), (''add'', r1)])] 500,
        w\<lparr>probed := p, launched := h @ [c0, c1]\<rparr>)
     else if \<not> success r2 then
       (jsonify [(''error'', JStr ''Failed to commit''), (''details'', JStr (stderr r2)),
                 (''workflow_results'', results_dict [(''copilot'', r0), (''add'', r1), (''commit'', r2)])] 500,
        w\<lparr>probed := p, launched := h @ [c0, c1, c2]\<rparr>)
     else if \<not> success r3 then
       (jsonify [(''error'', JStr ''Failed to push''), (''details'', JStr (stderr r3)),
                 (''workflow_results'', results_dict [(''copilot'', r0), (''add'', r1), (''commit'', r2), (''push'', r3)])] 500,
        w\<lparr>probed := p, launched := h @ [c0, c1, c2, c3]\<rparr>)
     else
       (jsonify [(''success'', JBool True),
                 (''message'', JStr ''Copilot workflow completed successfully''),
                 (''workflow_results'', results_dict [(''copilot'', r0), (''add'', r1), (''commit'', r2), (''push'', r3)]),
                 (''timestamp'', JStr (datetime_now w))] 200,
        w\<lparr>probed := p, launched := h @ [c0, c1, c2, c3]\<rparr>))"
proof -
  obtain m where v: "validate_request env data = (True, m)"
    using assms(11) by (cases "validate_request env data") auto
  show ?thesis
    unfolding copilot_commit_push_workflow_def
    using assms(12-17)
    by (simp add: v Let_def py_defs step_nf
        ex_def h_def c0_def c1_def c2_def c3_def r0_def r1_def r2_def r3_def)
qed

lemma workflow_add_raises:
  fixes env data w name g
  defines "ex \<equiv> CopilotExecutor (os_path_join (REPOS_BASE_PATH env) name)"
  defines "c0 \<equiv> (g, repo_path ex)"
  defines "r0 \<equiv> launch_result w (launched w) c0"
  assumes "fst (validate_request env data)" "repo_name data = Some name"
    "truthy (dict_get (prompt data))"
    "truthy (dict_get (commit_message data))"
    "validate_repo ex w = (Returns (), w\<lparr>probed := p\<rparr>)"
    "copilot_command (dict_get (prompt data)) (dict_get (files data)) = Returns g"
    "add_command (dict_get (files data)) = Raises e"
  shows "copilot_commit_push_workflow env data w =
    (if \<not> success r0 then
       (jsonify [(''error'', JStr ''Copilot execution failed''), (''details'', JStr (stderr r0)),
                 (''workflow_results'', results_dict [(''copilot'', r0)])] 500,
        w\<lparr>probed := p, launched := launched w @ [c0]\<rparr>)
     else
       (jsonify [(''error'', JStr (str_exn e))] 500,
        w\<lparr>probed := p, launched := launched w @ [c0]\<rparr>))"
proof -
  obtain m where v: "validate_request env data = (True, m)"
    using assms(4) by (cases "validate_request env data") auto
  show ?thesis
    unfolding copilot_commit_push_workflow_def
    using assms(5-10)
    by (simp add: v Let_def py_defs step_nf ex_def c0_def r0_def)
qed

lemma execute_reached:
  fixes env data w name g
  defines "ex \<equiv> CopilotExecutor (os_path_join (REPOS_BASE_PATH env) name)"
  defines "h \<equiv> launched w"
  defines "c0 \<equiv> (g, repo_path ex)"
  defines "c1 \<equiv> (status_command, repo_path ex)"
  defines "r0 \<equiv> launch_result w h c0"
  defines "r1 \<equiv> launch_result w (h @ [c0]) c1"
  assumes "fst (validate_request env data)" "repo_name data = Some name"
    "truthy (dict_get (prompt data))"
    "validate_repo ex w = (Returns (), w\<lparr>probed := p\<rparr>)"
    "copilot_command (dict_get (prompt data)) (dict_get_default (files data) (JList [])) = Returns g"
  shows "execute_copilot_route env data w =
       (jsonify [(''success'', JBool (success r0)),
                 (''output'', JStr (stdout r0)),
                 (''error'', JStr (stderr r0)),
                 (''git_status'', JStr (stdout r1)),
                 (''timestamp'', JStr (datetime_now w))] 200,
        w\<lparr>probed := p, launched := h @ [c0, c1]\<rparr>)"
proof -
  obtain m where v: "validate_request env data = (True, m)"
    using assms(7) by (cases "validate_request env data") auto
  show ?thesis
    unfolding execute_copilot_route_def
    using assms(8-11)
    by (simp add: v Let_def py_defs step_nf
        ex_def h_def c0_def c1_def r0_def r1_def)
qed

section \<open>The process runner\<close>

lemmas demo_defs = demo_env_def demo_request_def demo_world_def only_def exits_def




section \<open>Timeouts and launch failures\<close>

text \<open>
  C5. When \<^verbatim>\<open>subprocess.run\<close> raises \<^verbatim>\<open>TimeoutExpired\<close> (the command ran longer
  than the timeout), \<^verbatim>\<open>run_command\<close> returns, it does not raise: the result has
  \<open>success = False\<close>, exit code \<open>-1\<close> and the non-empty stderr
  \<^verbatim>\<open>Command timed out after 5 minutes\<close>, which starts with \<^verbatim>\<open>Command timed out after\<close>.
\<close>

theorem run_command_timeout:
  assumes "subprocess_run w (launched w) command (str_or cwd (repo_path self)) 300 = Raises e"
    and "is_TimeoutExpired e"
  shows "\<exists>r. fst (run_command self command cwd w) = Returns r
           \<and> success r = False \<and> returncode r = - 1
           \<and> stderr r = ''Command timed out after '' @ ''5 minutes''
           \<and> stderr r \<noteq> []
           \<and> prefix ''Command timed out after '' (stderr r)"
  using assms by (simp add: run_command_def command_result_of_def Let_def)

theorem run_command_timeout_witness:
  "os_process (demo_world (only [''git'', ''push''] (TimesOut ''timed out after 300 seconds'')))
       [] [''git'', ''push'', ''origin''] ''/var/repos/demo'' 300
     = TimesOut ''timed out after 300 seconds''
   \<and> subprocess_run (demo_world (only [''git'', ''push''] (TimesOut ''timed out after 300 seconds'')))
       (launched (demo_world (only [''git'', ''push''] (TimesOut ''timed out after 300 seconds''))))
       [JStr ''git'', JStr ''push'', JStr ''origin'']
       (str_or None (repo_path (CopilotExecutor ''/var/repos/demo''))) 300
     = Raises (TimeoutExpired ''timed out after 300 seconds'')
   \<and> is_TimeoutExpired (TimeoutExpired ''timed out after 300 seconds'')
   \<and> (\<exists>r. fst (run_command (CopilotExecutor ''/var/repos/demo'')
                 [JStr ''git'', JStr ''push'', JStr ''origin''] None
                 (demo_world (only [''git'', ''push''] (TimesOut ''timed out after 300 seconds'')))) = Returns r
          \<and> success r = False \<and> returncode r = - 1
          \<and> stderr r = ''Command timed out after 5 minutes'')"
proof -
  let ?w = "demo_world (only [''git'', ''push''] (TimesOut ''timed out after 300 seconds''))"
  have h0: "os_process ?w [] [''git'', ''push'', ''origin''] ''/var/repos/demo'' 300
     = TimesOut ''timed out after 300 seconds''"
    by (simp add: demo_defs)
  have h1: "subprocess_run ?w (launched ?w) [JStr ''git'', JStr ''push'', JStr ''origin'']
              (str_or None (repo_path (CopilotExecutor ''/var/repos/demo''))) 300
            = Raises (TimeoutExpired ''timed out after 300 seconds'')"
    by (simp add: subprocess_run_def demo_defs)
  have h2: "is_TimeoutExpired (TimeoutExpired ''timed out after 300 seconds'')" by simp
  from run_command_timeout [OF h1 h2] h0 h1 h2 show ?thesis by auto
qed

text \<open>
  C6. When \<^verbatim>\<open>subprocess.run\<close> raises anything but \<^verbatim>\<open>TimeoutExpired\<close> (the command
  could not be launched: a missing binary, a permission error, any other exception),
  \<^verbatim>\<open>run_command\<close> still returns, it does not raise: the result has \<open>success = False\<close>,
  exit code \<open>-1\<close>, and the exception's message as stderr.
\<close>

theorem run_command_launch_failure:
  assumes "subprocess_run w (launched w) command (str_or cwd (repo_path self)) 300 = Raises e"
    and "\<not> is_TimeoutExpired e"
  shows "fst (run_command self command cwd w) =
           Returns \<lparr>success = False, stdout = [], stderr = str_exn e, returncode = - 1\<rparr>"
  using assms by (simp add: run_command_def command_result_of_def Let_def)

theorem run_command_launch_failure_witness:
  "os_process (demo_world (only [''gh''] (LaunchError ''[Errno 2] No such file or directory: gh'')))
       [] [''gh'', ''copilot'', ''suggest'', ''x''] ''/var/repos/demo'' 300
     = LaunchError ''[Errno 2] No such file or directory: gh''
   \<and> subprocess_run (demo_world (only [''gh''] (LaunchError ''[Errno 2] No such file or directory: gh'')))
       (launched (demo_world (only [''gh''] (LaunchError ''[Errno 2] No such file or directory: gh''))))
       [JStr ''gh'', JStr ''copilot'', JStr ''suggest'', JStr ''x'']
       (str_or None (repo_path (CopilotExecutor ''/var/repos/demo''))) 300
     = Raises (OtherException ''[Errno 2] No such file or directory: gh'')
   \<and> \<not> is_TimeoutExpired (OtherException ''[Errno 2] No such file or directory: gh'')
   \<and> fst (run_command (CopilotExecutor ''/var/repos/demo'')
            [JStr ''gh'', JStr ''copilot'', JStr ''suggest'', JStr ''x''] None
            (demo_world (only [''gh''] (LaunchError ''[Errno 2] No such file or directory: gh''))))
       = Returns \<lparr>success = False, stdout = [],
                  stderr = ''[Errno 2] No such file or directory: gh'', returncode = - 1\<rparr>"
proof -
  let ?e = "OtherException ''[Errno 2] No such file or directory: gh''"
  let ?w = "demo_world (only [''gh''] (LaunchError ''[Errno 2] No such file or directory: gh''))"
  have h0: "os_process ?w [] [''gh'', ''copilot'', ''suggest'', ''x''] ''/var/repos/demo'' 300
     = LaunchError ''[Errno 2] No such file or directory: gh''"
    by (simp add: demo_defs)
  have h1: "subprocess_run ?w (launched ?w) [JStr ''gh'', JStr ''copilot'', JStr ''suggest'', JStr ''x'']
              (str_or None (repo_path (CopilotExecutor ''/var/repos/demo''))) 300 = Raises ?e"
    by (simp add: subprocess_run_def demo_defs)
  have h2: "\<not> is_TimeoutExpired ?e" by simp
  from run_command_launch_failure [OF h1 h2] h0 h1 h2 show ?thesis by simp
qed

section \<open>Requests that stop before the first step\<close>

lemma validate_request_name:
  "fst (validate_request env data) \<Longrightarrow> \<exists>name. repo_name data = Some name \<and> name \<noteq> []"
  by (auto simp: validate_request_def truthy_str_def split: option.splits if_splits)

lemma rejected:
  assumes "\<not> fst (validate_request env data)"
  shows "commit_and_push env data w = (jsonify [(''error'', json_opt (snd (validate_request env data)))] 400, w)"
    and "copilot_commit_push_workflow env data w = (jsonify [(''error'', json_opt (snd (validate_request env data)))] 400, w)"
    and "execute_copilot_route env data w = (jsonify [(''error'', json_opt (snd (validate_request env data)))] 400, w)"
  using assms
  by (simp_all add: commit_and_push_def copilot_commit_push_workflow_def execute_copilot_route_def
      py_defs case_prod_unfold)

lemma missing_field:
  assumes "fst (validate_request env data)"
  shows "\<not> truthy (dict_get (commit_message data)) \<Longrightarrow>
           commit_and_push env data w = (jsonify [(''error'', JStr ''commit_message is required'')] 400, w)"
    and "\<not> truthy (dict_get (prompt data)) \<Longrightarrow>
           copilot_commit_push_workflow env data w = (jsonify [(''error'', JStr ''prompt is required'')] 400, w)"
    and "truthy (dict_get (prompt data)) \<Longrightarrow> \<not> truthy (dict_get (commit_message data)) \<Longrightarrow>
           copilot_commit_push_workflow env data w = (jsonify [(''error'', JStr ''commit_message is required'')] 400, w)"
    and "\<not> truthy (dict_get (prompt data)) \<Longrightarrow>
           execute_copilot_route env data w = (jsonify [(''error'', JStr ''prompt is required'')] 400, w)"
  using assms validate_request_name[OF assms]
  by (auto simp: commit_and_push_def copilot_commit_push_workflow_def execute_copilot_route_def
      py_defs case_prod_unfold Let_def)

lemma repo_invalid:
  assumes "fst (validate_request env data)" "repo_name data = Some name"
    and "validate_repo (CopilotExecutor (os_path_join (REPOS_BASE_PATH env) name)) w = (Raises e, w1)"
  shows "truthy (dict_get (commit_message data)) \<Longrightarrow>
           commit_and_push env data w = (jsonify [(''error'', JStr (str_exn e))] 500, w1)"
    and "truthy (dict_get (prompt data)) \<Longrightarrow> truthy (dict_get (commit_message data)) \<Longrightarrow>
           copilot_commit_push_workflow env data w = (jsonify [(''error'', JStr (str_exn e))] 500, w1)"
    and "truthy (dict_get (prompt data)) \<Longrightarrow>
           execute_copilot_route env data w = (jsonify [(''error'', JStr (str_exn e))] 500, w1)"
  using assms
  by (auto simp: commit_and_push_def copilot_commit_push_workflow_def execute_copilot_route_def
      py_defs case_prod_unfold Let_def)

text \<open>A method that raises while it builds its first command line: the route answers 500.\<close>

lemma command_raises:
  assumes "fst (validate_request env data)" "repo_name data = Some name"
    and "validate_repo (CopilotExecutor (os_path_join (REPOS_BASE_PATH env) name)) w
           = (Returns (), w1)"
  shows "truthy (dict_get (commit_message data)) \<Longrightarrow>
         add_command (dict_get (files data)) = Raises e \<Longrightarrow>
           commit_and_push env data w = (jsonify [(''error'', JStr (str_exn e))] 500, w1)"
    and "truthy (dict_get (prompt data)) \<Longrightarrow> truthy (dict_get (commit_message data)) \<Longrightarrow>
         copilot_command (dict_get (prompt data)) (dict_get (files data)) = Raises e \<Longrightarrow>
           copilot_commit_push_workflow env data w = (jsonify [(''error'', JStr (str_exn e))] 500, w1)"
    and "truthy (dict_get (prompt data)) \<Longrightarrow>
         copilot_command (dict_get (prompt data)) (dict_get_default (files data) (JList [])) = Raises e \<Longrightarrow>
           execute_copilot_route env data w = (jsonify [(''error'', JStr (str_exn e))] 500, w1)"
  using assms
  by (auto simp: commit_and_push_def copilot_commit_push_workflow_def execute_copilot_route_def
      py_defs case_prod_unfold Let_def step_nf)

lemma validate_repo_launched [simp]:
  "launched (snd (validate_repo ex w)) = launched w"
  by (simp add: validate_repo_def Let_def)

lemma validate_repo_outcome:
  "fst (validate_repo ex w) = Returns () \<or> (\<exists>e. fst (validate_repo ex w) = Raises e)"
  by (simp add: validate_repo_def Let_def)

lemma repo_invalid_no_launch:
  assumes "repo_name data = Some name"
    and "fst (validate_repo (CopilotExecutor (os_path_join (REPOS_BASE_PATH env) name)) w) = Raises e"
  shows "launched (snd (commit_and_push env data w)) = launched w
       \<and> launched (snd (copilot_commit_push_workflow env data w)) = launched w
       \<and> launched (snd (execute_copilot_route env data w)) = launched w"
proof (cases "fst (validate_request env data)")
  case False
  then show ?thesis by (simp add: rejected)
next
  case True
  let ?ex = "CopilotExecutor (os_path_join (REPOS_BASE_PATH env) name)"
  have v: "validate_repo ?ex w = (Raises e, snd (validate_repo ?ex w))"
    using assms(2) by (metis prod.collapse)
  have l: "launched (snd (validate_repo ?ex w)) = launched w" by simp
  have "launched (snd (commit_and_push env data w)) = launched w"
    by (cases "truthy (dict_get (commit_message data))")
       (simp_all add: missing_field[OF True] repo_invalid[OF True assms(1) v] l)
  moreover have "launched (snd (copilot_commit_push_workflow env data w)) = launched w"
    by (cases "truthy (dict_get (prompt data))"; cases "truthy (dict_get (commit_message data))")
       (simp_all add: missing_field[OF True] repo_invalid[OF True assms(1) v] l)
  moreover have "launched (snd (execute_copilot_route env data w)) = launched w"
    by (cases "truthy (dict_get (prompt data))")
       (simp_all add: missing_field[OF True] repo_invalid[OF True assms(1) v] l)
  ultimately show ?thesis by simp
qed

section \<open>Repository validation\<close>

text \<open>
  C7. \<^verbatim>\<open>validate_repo\<close> asks for the repository path first and for its \<^verbatim>\<open>.git\<close>
  directory second, and only when the path exists. A missing path and a path without
  \<^verbatim>\<open>.git\<close> raise errors that differ, whatever the paths. When the validation of a
  request's repository raises, none of the three routes launches a subprocess.
\<close>

theorem validate_repo_checks:
  "(\<not> os_path_exists w (repo_path self) \<longrightarrow>
      validate_repo self w =
        (Raises (ValueError (''Repository path does not exist: '' @ repo_path self)),
         w\<lparr>probed := probed w @ [repo_path self]\<rparr>))
   \<and> (os_path_exists w (repo_path self)
        \<and> \<not> os_path_exists w (os_path_join (repo_path self) ''.git'') \<longrightarrow>
      validate_repo self w =
        (Raises (ValueError (''Not a git repository: '' @ repo_path self)),
         w\<lparr>probed := probed w @ [repo_path self, os_path_join (repo_path self) ''.git'']\<rparr>))
   \<and> (os_path_exists w (repo_path self)
        \<and> os_path_exists w (os_path_join (repo_path self) ''.git'') \<longrightarrow>
      validate_repo self w =
        (Returns (),
         w\<lparr>probed := probed w @ [repo_path self, os_path_join (repo_path self) ''.git'']\<rparr>))
   \<and> ValueError (''Repository path does not exist: '' @ p) \<noteq> ValueError (''Not a git repository: '' @ q)
   \<and> (\<forall>env data name e.
         repo_name data = Some name
         \<and> self = CopilotExecutor (os_path_join (REPOS_BASE_PATH env) name)
         \<and> fst (validate_repo self w) = Raises e \<longrightarrow>
           launched (snd (execute_copilot_route env data w)) = launched w
           \<and> launched (snd (commit_and_push env data w)) = launched w
           \<and> launched (snd (copilot_commit_push_workflow env data w)) = launched w)"
proof -
  have a: "\<not> os_path_exists w (repo_path self) \<longrightarrow>
      validate_repo self w =
        (Raises (ValueError (''Repository path does not exist: '' @ repo_path self)),
         w\<lparr>probed := probed w @ [repo_path self]\<rparr>)"
    by (simp add: validate_repo_def Let_def)
  have b: "os_path_exists w (repo_path self)
        \<and> \<not> os_path_exists w (os_path_join (repo_path self) ''.git'') \<longrightarrow>
      validate_repo self w =
        (Raises (ValueError (''Not a git repository: '' @ repo_path self)),
         w\<lparr>probed := probed w @ [repo_path self, os_path_join (repo_path self) ''.git'']\<rparr>)"
    by (simp add: validate_repo_def Let_def)
  have c: "os_path_exists w (repo_path self)
        \<and> os_path_exists w (os_path_join (repo_path self) ''.git'') \<longrightarrow>
      validate_repo self w =
        (Returns (),
         w\<lparr>probed := probed w @ [repo_path self, os_path_join (repo_path self) ''.git'']\<rparr>)"
    by (simp add: validate_repo_def Let_def)
  have d: "ValueError (''Repository path does not exist: '' @ p) \<noteq> ValueError (''Not a git repository: '' @ q)"
    by simp
  have e: "\<forall>env data name e.
         repo_name data = Some name
         \<and> self = CopilotExecutor (os_path_join (REPOS_BASE_PATH env) name)
         \<and> fst (validate_repo self w) = Raises e \<longrightarrow>
           launched (snd (execute_copilot_route env data w)) = launched w
           \<and> launched (snd (commit_and_push env data w)) = launched w
           \<and> launched (snd (copilot_commit_push_workflow env data w)) = launched w"
    using repo_invalid_no_launch by blast
  from a b c d e show ?thesis by (intro conjI)
qed

theorem validate_repo_checks_witness:
  "\<not> os_path_exists (demo_world (only [] (exits 0 [] []))) ''/var/repos/nope''
   \<and> fst (validate_repo (CopilotExecutor ''/var/repos/nope'') (demo_world (only [] (exits 0 [] []))))
       = Raises (ValueError ''Repository path does not exist: /var/repos/nope'')
   \<and> probed (snd (validate_repo (CopilotExecutor ''/var/repos/nope'') (demo_world (only [] (exits 0 [] [])))))
       = [''/var/repos/nope'']
   \<and> os_path_exists (demo_world (only [] (exits 0 [] []))) ''/var/repos/plain''
   \<and> \<not> os_path_exists (demo_world (only [] (exits 0 [] []))) ''/var/repos/plain/.git''
   \<and> fst (validate_repo (CopilotExecutor ''/var/repos/plain'') (demo_world (only [] (exits 0 [] []))))
       = Raises (ValueError ''Not a git repository: /var/repos/plain'')
   \<and> probed (snd (validate_repo (CopilotExecutor ''/var/repos/plain'') (demo_world (only [] (exits 0 [] [])))))
       = [''/var/repos/plain'', ''/var/repos/plain/.git'']
   \<and> launched (snd (execute_copilot_route (demo_env None) (demo_request ''plain'') (demo_world (only [] (exits 0 [] []))))) = []
   \<and> launched (snd (commit_and_push (demo_env None) (demo_request ''nope'') (demo_world (only [] (exits 0 [] []))))) = []
   \<and> launched (snd (copilot_commit_push_workflow (demo_env None) (demo_request ''plain'') (demo_world (only [] (exits 0 [] []))))) = []"
proof -
  let ?w = "demo_world (only [] (exits 0 [] []))"
  let ?nope = "CopilotExecutor ''/var/repos/nope''"
  let ?plain = "CopilotExecutor ''/var/repos/plain''"
  have e1: "\<not> os_path_exists ?w (repo_path ?nope)"
    by (simp add: demo_world_def)
  have e2: "os_path_exists ?w (repo_path ?plain)
            \<and> \<not> os_path_exists ?w (os_path_join (repo_path ?plain) ''.git'')"
    by (simp add: demo_world_def os_path_join_def)
  have j1: "?nope = CopilotExecutor (os_path_join (REPOS_BASE_PATH (demo_env None)) ''nope'')"
    and j2: "?plain = CopilotExecutor (os_path_join (REPOS_BASE_PATH (demo_env None)) ''plain'')"
    by (simp_all add: os_path_join_def REPOS_BASE_PATH_def getenv_def demo_env_def)
  have l: "launched ?w = []" "probed ?w = []"
    by (simp_all add: demo_world_def)
  note n = validate_repo_checks [of ?w ?nope]
  note p = validate_repo_checks [of ?w ?plain]
  have v1: "validate_repo ?nope ?w =
      (Raises (ValueError (''Repository path does not exist: '' @ repo_path ?nope)),
       ?w\<lparr>probed := probed ?w @ [repo_path ?nope]\<rparr>)"
    using n e1 by blast
  have v2: "validate_repo ?plain ?w =
      (Raises (ValueError (''Not a git repository: '' @ repo_path ?plain)),
       ?w\<lparr>probed := probed ?w @ [repo_path ?plain, os_path_join (repo_path ?plain) ''.git'']\<rparr>)"
    using p e2 by blast
  have r1: "launched (snd (commit_and_push (demo_env None) (demo_request ''nope'') ?w)) = launched ?w"
    using n j1 v1 by (simp add: demo_request_def)
  have r2: "launched (snd (execute_copilot_route (demo_env None) (demo_request ''plain'') ?w)) = launched ?w"
    "launched (snd (copilot_commit_push_workflow (demo_env None) (demo_request ''plain'') ?w)) = launched ?w"
    using p j2 v2 by (simp_all add: demo_request_def)
  show ?thesis
    using e1 e2 v1 v2 r1 r2 l by (simp add: os_path_join_def)
qed

section \<open>How far a request gets\<close>

text \<open>
  Helper lemmas. A request either stops before its first subprocess (it is rejected, a
  required field is missing, the repository is not valid, or the first command line
  cannot be built), and then the launch log is untouched, or it reaches the steps in a
  world that differs from the initial one by the two probes of \<^verbatim>\<open>validate_repo\<close> only.
\<close>

lemma validate_repo_split:
  obtains (raises) e w1 where "validate_repo ex w = (Raises e, w1)"
  | (returns) p where "validate_repo ex w = (Returns (), w\<lparr>probed := p\<rparr>)"
proof -
  obtain p where p: "snd (validate_repo ex w) = w\<lparr>probed := p\<rparr>"
    using validate_repo_world by blast
  from validate_repo_outcome [of ex w] show thesis
  proof
    assume "fst (validate_repo ex w) = Returns ()"
    with p have "validate_repo ex w = (Returns (), w\<lparr>probed := p\<rparr>)"
      by (metis prod.collapse)
    then show thesis by (rule returns)
  next
    assume "\<exists>e. fst (validate_repo ex w) = Raises e"
    then obtain e where "validate_repo ex w = (Raises e, snd (validate_repo ex w))"
      by (metis prod.collapse)
    then show thesis by (rule raises)
  qed
qed

lemma commit_and_push_cases:
  obtains (stopped) "launched (snd (commit_and_push env data w)) = launched w"
  | (reached) name p a where
      "fst (validate_request env data)" "repo_name data = Some name"
      "truthy (dict_get (commit_message data))"
      "validate_repo (CopilotExecutor (os_path_join (REPOS_BASE_PATH env) name)) w
         = (Returns (), w\<lparr>probed := p\<rparr>)"
      "add_command (dict_get (files data)) = Returns a"
proof (cases "fst (validate_request env data)")
  case False
  then have "launched (snd (commit_and_push env data w)) = launched w"
    by (simp add: rejected)
  then show thesis by (rule stopped)
next
  case True
  then obtain name where name: "repo_name data = Some name"
    using validate_request_name by blast
  show thesis
  proof (cases "truthy (dict_get (commit_message data))")
    case False
    then have "launched (snd (commit_and_push env data w)) = launched w"
      by (simp add: missing_field [OF True])
    then show thesis by (rule stopped)
  next
    case message: True
    show thesis
    proof (cases rule: validate_repo_split [of "CopilotExecutor (os_path_join (REPOS_BASE_PATH env) name)" w])
      case (raises e w1)
      then have "launched w1 = launched w"
        using validate_repo_launched [of "CopilotExecutor (os_path_join (REPOS_BASE_PATH env) name)" w]
        by simp
      then have "launched (snd (commit_and_push env data w)) = launched w"
        using message by (simp add: repo_invalid [OF True name raises])
      then show thesis by (rule stopped)
    next
      case (returns p)
      show thesis
      proof (cases "add_command (dict_get (files data))")
        case (Raises e)
        then have "launched (snd (commit_and_push env data w)) = launched w"
          using message by (simp add: command_raises [OF True name returns])
        then show thesis by (rule stopped)
      next
        case (Returns a)
        with True name message returns show thesis by (rule reached)
      qed
    qed
  qed
qed

lemma workflow_cases:
  obtains (stopped) "launched (snd (copilot_commit_push_workflow env data w)) = launched w"
  | (add_raises) name p g e where
      "fst (validate_request env data)" "repo_name data = Some name"
      "truthy (dict_get (prompt data))"
      "truthy (dict_get (commit_message data))"
      "validate_repo (CopilotExecutor (os_path_join (REPOS_BASE_PATH env) name)) w
         = (Returns (), w\<lparr>probed := p\<rparr>)"
      "copilot_command (dict_get (prompt data)) (dict_get (files data)) = Returns g"
      "add_command (dict_get (files data)) = Raises e"
  | (reached) name p g a where
      "fst (validate_request env data)" "repo_name data = Some name"
      "truthy (dict_get (prompt data))"
      "truthy (dict_get (commit_message data))"
      "validate_repo (CopilotExecutor (os_path_join (REPOS_BASE_PATH env) name)) w
         = (Returns (), w\<lparr>probed := p\<rparr>)"
      "copilot_command (dict_get (prompt data)) (dict_get (files data)) = Returns g"
      "add_command (dict_get (files data)) = Returns a"
proof (cases "fst (validate_request env data)")
  case False
  then have "launched (snd (copilot_commit_push_workflow env data w)) = launched w"
    by (simp add: rejected)
  then show thesis by (rule stopped)
next
  case True
  then obtain name where name: "repo_name data = Some name"
    using validate_request_name by blast
  show thesis
  proof (cases "truthy (dict_get (prompt data)) \<and> truthy (dict_get (commit_message data))")
    case False
    then have "launched (snd (copilot_commit_push_workflow env data w)) = launched w"
      by (cases "truthy (dict_get (prompt data))") (simp_all add: missing_field [OF True])
    then show thesis by (rule stopped)
  next
    case fields: True
    show thesis
    proof (cases rule: validate_repo_split [of "CopilotExecutor (os_path_join (REPOS_BASE_PATH env) name)" w])
      case (raises e w1)
      then have "launched w1 = launched w"
        using validate_repo_launched [of "CopilotExecutor (os_path_join (REPOS_BASE_PATH env) name)" w]
        by simp
      then have "launched (snd (copilot_commit_push_workflow env data w)) = launched w"
        using fields by (simp add: repo_invalid [OF True name raises])
      then show thesis by (rule stopped)
    next
      case (returns p)
      show thesis
      proof (cases "copilot_command (dict_get (prompt data)) (dict_get (files data))")
        case (Raises e)
        then have "launched (snd (copilot_commit_push_workflow env data w)) = launched w"
          using fields by (simp add: command_raises [OF True name returns])
        then show thesis by (rule stopped)
      next
        case g: (Returns g)
        show thesis
        proof (cases "add_command (dict_get (files data))")
          case (Raises e)
          with True name fields returns g show thesis by (intro add_raises) simp_all
        next
          case (Returns a)
          with True name fields returns g show thesis by (intro reached) simp_all
        qed
      qed
    qed
  qed
qed

lemma execute_cases:
  obtains (stopped) "launched (snd (execute_copilot_route env data w)) = launched w"
  | (reached) name p g where
      "fst (validate_request env data)" "repo_name data = Some name"
      "truthy (dict_get (prompt data))"
      "validate_repo (CopilotExecutor (os_path_join (REPOS_BASE_PATH env) name)) w
         = (Returns (), w\<lparr>probed := p\<rparr>)"
      "copilot_command (dict_get (prompt data)) (dict_get_default (files data) (JList [])) = Returns g"
proof (cases "fst (validate_request env data)")
  case False
  then have "launched (snd (execute_copilot_route env data w)) = launched w"
    by (simp add: rejected)
  then show thesis by (rule stopped)
next
  case True
  then obtain name where name: "repo_name data = Some name"
    using validate_request_name by blast
  show thesis
  proof (cases "truthy (dict_get (prompt data))")
    case False
    then have "launched (snd (execute_copilot_route env data w)) = launched w"
      by (simp add: missing_field [OF True])
    then show thesis by (rule stopped)
  next
    case pr: True
    show thesis
    proof (cases rule: validate_repo_split [of "CopilotExecutor (os_path_join (REPOS_BASE_PATH env) name)" w])
      case (raises e w1)
      then have "launched w1 = launched w"
        using validate_repo_launched [of "CopilotExecutor (os_path_join (REPOS_BASE_PATH env) name)" w]
        by simp
      then have "launched (snd (execute_copilot_route env data w)) = launched w"
        using pr by (simp add: repo_invalid [OF True name raises])
      then show thesis by (rule stopped)
    next
      case (returns p)
      show thesis
      proof (cases "copilot_command (dict_get (prompt data)) (dict_get_default (files data) (JList []))")
        case (Raises e)
        then have "launched (snd (execute_copilot_route env data w)) = launched w"
          using pr by (simp add: command_raises [OF True name returns])
        then show thesis by (rule stopped)
      next
        case (Returns g)
        with True name pr returns show thesis by (rule reached)
      qed
    qed
  qed
qed

section \<open>Short-circuit on the first failure\<close>

lemma commit_and_push_launches:
  "launched (snd (commit_and_push env data w)) = launched w @ launches_of (commit_and_push env data) w
   \<and> (\<forall>i. Suc i < length (launches_of (commit_and_push env data) w) \<longrightarrow>
         success (launch_result w (launched w @ take i (launches_of (commit_and_push env data) w))
                   (launches_of (commit_and_push env data) w ! i)))"
proof (cases rule: commit_and_push_cases [of env data w])
  case stopped
  then show ?thesis by (simp add: launches_of_def)
next
  case (reached name p a)
  show ?thesis
    unfolding launches_of_def commit_and_push_reached [OF reached]
    by (simp add: All_less_Suc2 eval_nat_numeral)
qed

lemma workflow_launches:
  "launched (snd (copilot_commit_push_workflow env data w))
     = launched w @ launches_of (copilot_commit_push_workflow env data) w
   \<and> (\<forall>i. Suc i < length (launches_of (copilot_commit_push_workflow env data) w) \<longrightarrow>
         success (launch_result w (launched w @ take i (launches_of (copilot_commit_push_workflow env data) w))
                   (launches_of (copilot_commit_push_workflow env data) w ! i)))"
proof (cases rule: workflow_cases [of env data w])
  case stopped
  then show ?thesis by (simp add: launches_of_def)
next
  case (add_raises name p g e)
  show ?thesis
    unfolding launches_of_def workflow_add_raises [OF add_raises]
    by simp
next
  case (reached name p g a)
  show ?thesis
    unfolding launches_of_def workflow_reached [OF reached]
    by (simp add: All_less_Suc2 eval_nat_numeral)
qed

lemma staging_failure_stops:
  assumes "repo_name data = Some name"
    and "failed (fst (git_add (CopilotExecutor (os_path_join (REPOS_BASE_PATH env) name))
                        (dict_get (files data)) w))"
  shows "launched (snd (commit_and_push env data w)) = launched w
       \<or> launched (snd (commit_and_push env data w))
           = launched (snd (git_add (CopilotExecutor (os_path_join (REPOS_BASE_PATH env) name))
                              (dict_get (files data)) w))"
proof (cases rule: commit_and_push_cases [of env data w])
  case stopped
  then show ?thesis by simp
next
  case (reached name' p a)
  with assms(1) have n: "name' = name" by simp
  show ?thesis
    using assms(2) reached(5)
    unfolding commit_and_push_reached [OF reached] n
    by (simp add: failed_def step_nf)
qed

lemma generation_failure_stops:
  assumes "repo_name data = Some name"
    and "failed (fst (execute_copilot (CopilotExecutor (os_path_join (REPOS_BASE_PATH env) name))
                        (dict_get (prompt data)) (dict_get (files data)) w))"
  shows "launched (snd (copilot_commit_push_workflow env data w)) = launched w
       \<or> launched (snd (copilot_commit_push_workflow env data w))
           = launched (snd (execute_copilot (CopilotExecutor (os_path_join (REPOS_BASE_PATH env) name))
                              (dict_get (prompt data)) (dict_get (files data)) w))"
proof (cases rule: workflow_cases [of env data w])
  case stopped
  then show ?thesis by simp
next
  case (add_raises name' p g e)
  with assms(1) have n: "name' = name" by simp
  show ?thesis
    using assms(2) add_raises(6)
    unfolding workflow_add_raises [OF add_raises] n
    by (simp add: failed_def step_nf)
next
  case (reached name' p g a)
  with assms(1) have n: "name' = name" by simp
  show ?thesis
    using assms(2) reached(6)
    unfolding workflow_reached [OF reached] n
    by (simp add: failed_def step_nf)
qed

lemmas eval_defs =
  validate_request_def truthy_str_def ALLOWED_REPOS_def REPOS_BASE_PATH_def getenv_def
  os_path_join_def validate_repo_def py_defs step_nf launch_result_def command_result_of_def
  subprocess_run_def str_join_def list_add_def dict_get_def dict_get_default_def
  copilot_command_def status_command_def add_command_def commit_command_def push_command_def
  str_or_def jsonify_def json_opt_def results_dict_def result_dict_def
  launches_of_def failed_def json_get_def json_keys_def Let_def

text \<open>
  C1. In both multi-step workflows no subprocess is launched after one that failed: every
  launch that is followed by another launch returned \<open>success = True\<close>. In particular,
  when staging fails in commit-and-push the launch log ends with the staging command (or
  is untouched, when the request never got that far), so commit and push are not
  invoked; when generation fails in the full workflow the log ends with the generation
  command, so stage, commit and push are not invoked.
\<close>

theorem failure_stops_workflow:
  "launched (snd (commit_and_push env data w)) = launched w @ launches_of (commit_and_push env data) w
   \<and> (\<forall>i. Suc i < length (launches_of (commit_and_push env data) w) \<longrightarrow>
         success (launch_result w (launched w @ take i (launches_of (commit_and_push env data) w))
                   (launches_of (commit_and_push env data) w ! i)))
   \<and> launched (snd (copilot_commit_push_workflow env data w))
       = launched w @ launches_of (copilot_commit_push_workflow env data) w
   \<and> (\<forall>i. Suc i < length (launches_of (copilot_commit_push_workflow env data) w) \<longrightarrow>
         success (launch_result w (launched w @ take i (launches_of (copilot_commit_push_workflow env data) w))
                   (launches_of (copilot_commit_push_workflow env data) w ! i)))
   \<and> (\<forall>name. repo_name data = Some name
         \<and> failed (fst (git_add (CopilotExecutor (os_path_join (REPOS_BASE_PATH env) name))
                          (dict_get (files data)) w)) \<longrightarrow>
           launched (snd (commit_and_push env data w)) = launched w
           \<or> launched (snd (commit_and_push env data w))
               = launched (snd (git_add (CopilotExecutor (os_path_join (REPOS_BASE_PATH env) name))
                                  (dict_get (files data)) w)))
   \<and> (\<forall>name. repo_name data = Some name
         \<and> failed (fst (execute_copilot (CopilotExecutor (os_path_join (REPOS_BASE_PATH env) name))
                          (dict_get (prompt data)) (dict_get (files data)) w)) \<longrightarrow>
           launched (snd (copilot_commit_push_workflow env data w)) = launched w
           \<or> launched (snd (copilot_commit_push_workflow env data w))
               = launched (snd (execute_copilot (CopilotExecutor (os_path_join (REPOS_BASE_PATH env) name))
                                  (dict_get (prompt data)) (dict_get (files data)) w)))"
  using commit_and_push_launches [of env data w] workflow_launches [of env data w]
    staging_failure_stops [of data _ env w] generation_failure_stops [of data _ env w]
  by blast

theorem failure_stops_workflow_witness:
  "launches_of (commit_and_push (demo_env None) (demo_request ''demo''))
       (demo_world (only [''git'', ''commit''] (exits 1 [] ''nothing to commit'')))
     = [([JStr ''git'', JStr ''add'', JStr ''-A''], ''/var/repos/demo''),
        ([JStr ''git'', JStr ''commit'', JStr ''-m'', JStr ''fix''], ''/var/repos/demo'')]
   \<and> success (launch_result (demo_world (only [''git'', ''commit''] (exits 1 [] ''nothing to commit'')))
                [] ([JStr ''git'', JStr ''add'', JStr ''-A''], ''/var/repos/demo''))
   \<and> failed (fst (git_add (CopilotExecutor ''/var/repos/demo'') JNull
                     (demo_world (only [] (exits 1 [] ''fatal'')))))
   \<and> launched (snd (commit_and_push (demo_env None) (demo_request ''demo'')
                     (demo_world (only [] (exits 1 [] ''fatal'')))))
       = [([JStr ''git'', JStr ''add'', JStr ''-A''], ''/var/repos/demo'')]
   \<and> failed (fst (execute_copilot (CopilotExecutor ''/var/repos/demo'') (JStr ''add tests'') JNull
                     (demo_world (only [] (exits 1 [] ''fatal'')))))
   \<and> launched (snd (copilot_commit_push_workflow (demo_env None) (demo_request ''demo'')
                     (demo_world (only [] (exits 1 [] ''fatal'')))))
       = [([JStr ''gh'', JStr ''copilot'', JStr ''suggest'', JStr ''add tests''], ''/var/repos/demo'')]"
proof -
  let ?E = "demo_env None" and ?D = "demo_request ''demo''"
  let ?W1 = "demo_world (only [''git'', ''commit''] (exits 1 [] ''nothing to commit''))"
  let ?W2 = "demo_world (only [] (exits 1 [] ''fatal''))"
  let ?ex = "CopilotExecutor ''/var/repos/demo''"
  have L1: "launches_of (commit_and_push ?E ?D) ?W1
     = [([JStr ''git'', JStr ''add'', JStr ''-A''], ''/var/repos/demo''),
        ([JStr ''git'', JStr ''commit'', JStr ''-m'', JStr ''fix''], ''/var/repos/demo'')]"
    by (simp add: commit_and_push_def demo_defs eval_defs)
  have ex: "CopilotExecutor (os_path_join (REPOS_BASE_PATH ?E) ''demo'') = ?ex"
    by (simp add: demo_defs eval_defs)
  have n: "repo_name ?D = Some ''demo''" "dict_get (prompt ?D) = JStr ''add tests''"
    "dict_get (files ?D) = JNull"
    by (simp_all add: demo_defs eval_defs)
  have f1: "failed (fst (git_add ?ex JNull ?W2))"
    by (simp add: demo_defs eval_defs)
  have f2: "failed (fst (execute_copilot ?ex (JStr ''add tests'') JNull ?W2))"
    by (simp add: demo_defs eval_defs)
  have g1: "launched (snd (git_add ?ex JNull ?W2))
       = [([JStr ''git'', JStr ''add'', JStr ''-A''], ''/var/repos/demo'')]"
    "launched (snd (execute_copilot ?ex (JStr ''add tests'') JNull ?W2))
       = [([JStr ''gh'', JStr ''copilot'', JStr ''suggest'', JStr ''add tests''], ''/var/repos/demo'')]"
    "launched ?W2 = []" "launched ?W1 = []"
    by (simp_all add: demo_defs eval_defs)
  have s1: "launched (snd (commit_and_push ?E ?D ?W2)) \<noteq> []"
    "launched (snd (copilot_commit_push_workflow ?E ?D ?W2)) \<noteq> []"
    by (simp_all add: commit_and_push_def copilot_commit_push_workflow_def demo_defs eval_defs)
  note t1 = failure_stops_workflow [of ?E ?D ?W1]
  note t2 = failure_stops_workflow [of ?E ?D ?W2]
  have a: "success (launch_result ?W1 [] ([JStr ''git'', JStr ''add'', JStr ''-A''], ''/var/repos/demo''))"
    using t1 [THEN conjunct2, THEN conjunct1, rule_format, of 0] L1 g1 by simp
  have b: "launched (snd (commit_and_push ?E ?D ?W2))
       = [([JStr ''git'', JStr ''add'', JStr ''-A''], ''/var/repos/demo'')]"
    using t2 [THEN conjunct2, THEN conjunct2, THEN conjunct2, THEN conjunct2, THEN conjunct1,
        rule_format, of "''demo''"] n f1 g1 s1 ex by simp
  have c: "launched (snd (copilot_commit_push_workflow ?E ?D ?W2))
       = [([JStr ''gh'', JStr ''copilot'', JStr ''suggest'', JStr ''add tests''], ''/var/repos/demo'')]"
    using t2 [THEN conjunct2, THEN conjunct2, THEN conjunct2, THEN conjunct2, THEN conjunct2,
        rule_format, of "''demo''"] n f2 g1 s1 ex by simp
  show ?thesis using L1 a b c f1 f2 by simp
qed

section \<open>Reading a response\<close>

text \<open>
  Helper lemmas. Sorting the keys of a body changes neither its status nor what is found
  under a key, up to the sorting of the value found.
\<close>

lemma str_le_refl [simp]: "str_le s s"
  by (induction s) simp_all

lemma map_of_insert_item:
  "map_of (insert_item x ys) k = (if k = fst x then Some (snd x) else map_of ys k)"
proof (induction ys)
  case Nil
  then show ?case by (cases x) simp
next
  case (Cons y ys)
  then show ?case by (cases x; cases y) auto
qed

lemma map_of_sort_items [simp]: "map_of (sort_items d) k = map_of d k"
proof (induction d)
  case Nil
  then show ?case by simp
next
  case (Cons x d)
  then show ?case by (cases x) (simp add: map_of_insert_item)
qed

lemma map_of_sort_keys_items [simp]:
  "map_of (sort_keys_items d) k = map_option sort_keys (map_of d k)"
  by (induction d) auto

lemma set_insert_item [simp]: "set (insert_item x ys) = insert x (set ys)"
  by (induction ys) auto

lemma set_sort_items [simp]: "set (sort_items d) = set d"
  by (induction d) simp_all

lemma length_insert_item [simp]: "length (insert_item x ys) = Suc (length ys)"
  by (induction ys) simp_all

lemma length_sort_items [simp]: "length (sort_items d) = length d"
  by (induction d) simp_all

lemma map_fst_sort_keys_items [simp]: "map fst (sort_keys_items d) = map fst d"
  by (induction d) auto

lemma status_jsonify [simp]: "status (jsonify d code) = code"
  by (simp add: jsonify_def)

lemma json_get_jsonify [simp]:
  "json_get (body (jsonify d code)) k = map_option sort_keys (map_of d k)"
  by (simp add: jsonify_def json_get_def)

lemma json_keys_jsonify:
  "set (json_keys (body (jsonify d code))) = fst ` set d"
  "length (json_keys (body (jsonify d code))) = length d"
proof -
  have "set (map fst (sort_items (sort_keys_items d))) = set (map fst (sort_keys_items d))"
    unfolding set_map by simp
  then show "set (json_keys (body (jsonify d code))) = fst ` set d"
    by (simp add: jsonify_def json_keys_def)
  show "length (json_keys (body (jsonify d code))) = length d"
    by (simp add: jsonify_def json_keys_def) (induction d, auto)
qed

section \<open>What the client sees when a command fails\<close>

lemma commit_and_push_failure_status:
  "\<forall>i. i < length (launches_of (commit_and_push env data) w) \<longrightarrow>
       \<not> success (launch_result w (launched w @ take i (launches_of (commit_and_push env data) w))
                    (launches_of (commit_and_push env data) w ! i)) \<longrightarrow>
       status (fst (commit_and_push env data w)) = 500
       \<and> json_get (body (fst (commit_and_push env data w))) ''details''
           = Some (JStr (stderr (launch_result w (launched w @ take i (launches_of (commit_and_push env data) w))
                                   (launches_of (commit_and_push env data) w ! i))))"
proof (cases rule: commit_and_push_cases [of env data w])
  case stopped
  then show ?thesis by (simp add: launches_of_def)
next
  case (reached name p a)
  show ?thesis
    unfolding launches_of_def commit_and_push_reached [OF reached]
    by (simp add: All_less_Suc2 eval_nat_numeral)
qed

lemma workflow_failure_status:
  "\<forall>i. i < length (launches_of (copilot_commit_push_workflow env data) w) \<longrightarrow>
       \<not> success (launch_result w (launched w @ take i (launches_of (copilot_commit_push_workflow env data) w))
                    (launches_of (copilot_commit_push_workflow env data) w ! i)) \<longrightarrow>
       status (fst (copilot_commit_push_workflow env data w)) = 500
       \<and> json_get (body (fst (copilot_commit_push_workflow env data w))) ''details''
           = Some (JStr (stderr (launch_result w (launched w @ take i (launches_of (copilot_commit_push_workflow env data) w))
                                   (launches_of (copilot_commit_push_workflow env data) w ! i))))"
proof (cases rule: workflow_cases [of env data w])
  case stopped
  then show ?thesis by (simp add: launches_of_def)
next
  case (add_raises name p g e)
  show ?thesis
    unfolding launches_of_def workflow_add_raises [OF add_raises]
    by simp
next
  case (reached name p g a)
  show ?thesis
    unfolding launches_of_def workflow_reached [OF reached]
    by (simp add: All_less_Suc2 eval_nat_numeral)
qed

lemma execute_answer:
  assumes "launches_of (execute_copilot_route env data) w \<noteq> []"
  shows "\<exists>name g r s w1.
       repo_name data = Some name
       \<and> copilot_command (dict_get (prompt data)) (dict_get_default (files data) (JList [])) = Returns g
       \<and> execute_copilot (CopilotExecutor (os_path_join (REPOS_BASE_PATH env) name))
            (dict_get (prompt data)) (dict_get_default (files data) (JList []))
            (snd (validate_repo (CopilotExecutor (os_path_join (REPOS_BASE_PATH env) name)) w))
           = (Returns r, w1)
       \<and> fst (git_status (CopilotExecutor (os_path_join (REPOS_BASE_PATH env) name)) w1) = Returns s
       \<and> snd (execute_copilot_route env data w)
           = snd (git_status (CopilotExecutor (os_path_join (REPOS_BASE_PATH env) name)) w1)
       \<and> launches_of (execute_copilot_route env data) w
           = [(g, os_path_join (REPOS_BASE_PATH env) name),
              (status_command, os_path_join (REPOS_BASE_PATH env) name)]
       \<and> r = launch_result w (launched w) (g, os_path_join (REPOS_BASE_PATH env) name)
       \<and> fst (execute_copilot_route env data w)
           = jsonify [(''success'', JBool (success r)),
                      (''output'', JStr (stdout r)),
                      (''error'', JStr (stderr r)),
                      (''git_status'', JStr (stdout s)),
                      (''timestamp'', JStr (datetime_now w))] 200
       \<and> status (fst (execute_copilot_route env data w)) = 200
       \<and> json_get (body (fst (execute_copilot_route env data w))) ''success'' = Some (JBool (success r))
       \<and> json_get (body (fst (execute_copilot_route env data w))) ''error'' = Some (JStr (stderr r))"
proof (cases rule: execute_cases [of env data w])
  case stopped
  with assms show ?thesis by (simp add: launches_of_def)
next
  case (reached name p g)
  show ?thesis
    unfolding launches_of_def execute_reached [OF reached]
    using reached(2,4,5)
    by (simp add: step_nf)
qed


text \<open>
  C4, as stated, fails: a \<^verbatim>\<open>/api/copilot/execute\<close> request whose assistant
  invocation exits with code 1 is answered with status 200.
\<close>

theorem execute_failure_is_200:
  "failed (fst (execute_copilot (CopilotExecutor ''/var/repos/demo'') (JStr ''add tests'') (JList [])
                  (demo_world (only [''gh''] (exits 1 [] ''boom'')))))
   \<and> launched (snd (execute_copilot_route (demo_env None) (demo_request ''demo'')
                      (demo_world (only [''gh''] (exits 1 [] ''boom'')))))
       = [([JStr ''gh'', JStr ''copilot'', JStr ''suggest'', JStr ''add tests''], ''/var/repos/demo''),
          ([JStr ''git'', JStr ''status'', JStr ''--porcelain''], ''/var/repos/demo'')]
   \<and> status (fst (execute_copilot_route (demo_env None) (demo_request ''demo'')
                    (demo_world (only [''gh''] (exits 1 [] ''boom''))))) = 200
   \<and> status (fst (execute_copilot_route (demo_env None) (demo_request ''demo'')
                    (demo_world (only [''gh''] (exits 1 [] ''boom''))))) \<noteq> 500"
  by (simp add: execute_copilot_route_def demo_defs eval_defs)

text \<open>
  C4, amended. In commit-and-push and in the full workflow, a launch whose result has
  \<open>success = False\<close> (a non-zero exit code, a timeout, a launch failure) makes the
  response a 500 whose \<^verbatim>\<open>details\<close> is the stderr of that result. The route
  \<^verbatim>\<open>/api/copilot/execute\<close>, when it launches anything, launches exactly two commands:
  the assistant (the method \<^verbatim>\<open>execute_copilot\<close>, right after the repository
  validation) and then \<^verbatim>\<open>git status\<close>. It answers 200 whether the assistant failed
  or not, with the assistant's \<open>success\<close> flag under \<^verbatim>\<open>success\<close>, its stdout under
  \<^verbatim>\<open>output\<close>, its stderr under \<^verbatim>\<open>error\<close>, and the stdout of \<^verbatim>\<open>git status\<close>
  under \<^verbatim>\<open>git_status\<close>.
\<close>

theorem command_failure_status:
  "(\<forall>i. i < length (launches_of (commit_and_push env data) w) \<longrightarrow>
       \<not> success (launch_result w (launched w @ take i (launches_of (commit_and_push env data) w))
                    (launches_of (commit_and_push env data) w ! i)) \<longrightarrow>
       status (fst (commit_and_push env data w)) = 500
       \<and> json_get (body (fst (commit_and_push env data w))) ''details''
           = Some (JStr (stderr (launch_result w (launched w @ take i (launches_of (commit_and_push env data) w))
                                   (launches_of (commit_and_push env data) w ! i)))))
   \<and> (\<forall>i. i < length (launches_of (copilot_commit_push_workflow env data) w) \<longrightarrow>
       \<not> success (launch_result w (launched w @ take i (launches_of (copilot_commit_push_workflow env data) w))
                    (launches_of (copilot_commit_push_workflow env data) w ! i)) \<longrightarrow>
       status (fst (copilot_commit_push_workflow env data w)) = 500
       \<and> json_get (body (fst (copilot_commit_push_workflow env data w))) ''details''
           = Some (JStr (stderr (launch_result w (launched w @ take i (launches_of (copilot_commit_push_workflow env data) w))
                                   (launches_of (copilot_commit_push_workflow env data) w ! i)))))
   \<and> (launches_of (execute_copilot_route env data) w \<noteq> [] \<longrightarrow>
       (\<exists>name g r s w1.
          repo_name data = Some name
          \<and> copilot_command (dict_get (prompt data)) (dict_get_default (files data) (JList [])) = Returns g
          \<and> execute_copilot (CopilotExecutor (os_path_join (REPOS_BASE_PATH env) name))
               (dict_get (prompt data)) (dict_get_default (files data) (JList []))
               (snd (validate_repo (CopilotExecutor (os_path_join (REPOS_BASE_PATH env) name)) w))
              = (Returns r, w1)
          \<and> fst (git_status (CopilotExecutor (os_path_join (REPOS_BASE_PATH env) name)) w1) = Returns s
          \<and> snd (execute_copilot_route env data w)
              = snd (git_status (CopilotExecutor (os_path_join (REPOS_BASE_PATH env) name)) w1)
          \<and> launches_of (execute_copilot_route env data) w
              = [(g, os_path_join (REPOS_BASE_PATH env) name),
                 (status_command, os_path_join (REPOS_BASE_PATH env) name)]
          \<and> r = launch_result w (launched w) (g, os_path_join (REPOS_BASE_PATH env) name)
          \<and> fst (execute_copilot_route env data w)
              = jsonify [(''success'', JBool (success r)),
                         (''output'', JStr (stdout r)),
                         (''error'', JStr (stderr r)),
                         (''git_status'', JStr (stdout s)),
                         (''timestamp'', JStr (datetime_now w))] 200
          \<and> status (fst (execute_copilot_route env data w)) = 200
          \<and> json_get (body (fst (execute_copilot_route env data w))) ''success'' = Some (JBool (success r))
          \<and> json_get (body (fst (execute_copilot_route env data w))) ''error'' = Some (JStr (stderr r))))"
  using commit_and_push_failure_status [of env data w] workflow_failure_status [of env data w]
    execute_answer [of env data w]
  by (intro conjI impI)

theorem command_failure_status_witness:
  "launches_of (commit_and_push (demo_env None) (demo_request ''demo''))
       (demo_world (only [''git'', ''commit''] (TimesOut ''timed out after 300 seconds'')))
     = [([JStr ''git'', JStr ''add'', JStr ''-A''], ''/var/repos/demo''),
        ([JStr ''git'', JStr ''commit'', JStr ''-m'', JStr ''fix''], ''/var/repos/demo'')]
   \<and> \<not> success (launch_result (demo_world (only [''git'', ''commit''] (TimesOut ''timed out after 300 seconds'')))
                   [([JStr ''git'', JStr ''add'', JStr ''-A''], ''/var/repos/demo'')]
                   ([JStr ''git'', JStr ''commit'', JStr ''-m'', JStr ''fix''], ''/var/repos/demo''))
   \<and> status (fst (commit_and_push (demo_env None) (demo_request ''demo'')
                    (demo_world (only [''git'', ''commit''] (TimesOut ''timed out after 300 seconds''))))) = 500
   \<and> json_get (body (fst (commit_and_push (demo_env None) (demo_request ''demo'')
                    (demo_world (only [''git'', ''commit''] (TimesOut ''timed out after 300 seconds'')))))) ''details''
       = Some (JStr ''Command timed out after 5 minutes'')
   \<and> launches_of (copilot_commit_push_workflow (demo_env None) (demo_request ''demo''))
       (demo_world (only [''gh''] (exits 2 [] ''boom'')))
     = [([JStr ''gh'', JStr ''copilot'', JStr ''suggest'', JStr ''add tests''], ''/var/repos/demo'')]
   \<and> status (fst (copilot_commit_push_workflow (demo_env None) (demo_request ''demo'')
                    (demo_world (only [''gh''] (exits 2 [] ''boom''))))) = 500
   \<and> json_get (body (fst (copilot_commit_push_workflow (demo_env None) (demo_request ''demo'')
                    (demo_world (only [''gh''] (exits 2 [] ''boom'')))))) ''details''
       = Some (JStr ''boom'')
   \<and> launches_of (execute_copilot_route (demo_env None) (demo_request ''demo''))
       (demo_world (only [''gh''] (exits 2 [] ''boom''))) \<noteq> []
   \<and> status (fst (execute_copilot_route (demo_env None) (demo_request ''demo'')
                    (demo_world (only [''gh''] (exits 2 [] ''boom''))))) = 200
   \<and> json_get (body (fst (execute_copilot_route (demo_env None) (demo_request ''demo'')
                    (demo_world (only [''gh''] (exits 2 [] ''boom'')))))) ''error''
       = Some (JStr ''boom'')"
proof -
  let ?E = "demo_env None" and ?D = "demo_request ''demo''"
  let ?W1 = "demo_world (only [''git'', ''commit''] (TimesOut ''timed out after 300 seconds''))"
  let ?W2 = "demo_world (only [''gh''] (exits 2 [] ''boom''))"
  let ?add = "([JStr ''git'', JStr ''add'', JStr ''-A''], ''/var/repos/demo'')"
  let ?commit = "([JStr ''git'', JStr ''commit'', JStr ''-m'', JStr ''fix''], ''/var/repos/demo'')"
  let ?gh = "([JStr ''gh'', JStr ''copilot'', JStr ''suggest'', JStr ''add tests''], ''/var/repos/demo'')"
  have L1: "launches_of (commit_and_push ?E ?D) ?W1 = [?add, ?commit]"
    by (simp add: commit_and_push_def demo_defs eval_defs)
  have L2: "launches_of (copilot_commit_push_workflow ?E ?D) ?W2 = [?gh]"
    by (simp add: copilot_commit_push_workflow_def demo_defs eval_defs)
  have L3: "launches_of (execute_copilot_route ?E ?D) ?W2 \<noteq> []"
    by (simp add: execute_copilot_route_def demo_defs eval_defs)
  have g: "copilot_command (dict_get (prompt ?D)) (dict_get_default (files ?D) (JList []))
             = Returns (fst ?gh)"
    "os_path_join (REPOS_BASE_PATH ?E) ''demo'' = ''/var/repos/demo''"
    "repo_name ?D = Some ''demo''"
    by (simp_all add: demo_defs eval_defs)
  have l0: "launched ?W1 = []" "launched ?W2 = []"
    by (simp_all add: demo_defs)
  have r1: "launch_result ?W1 [?add] ?commit
      = \<lparr>success = False, stdout = [], stderr = ''Command timed out after 5 minutes'', returncode = - 1\<rparr>"
    by (simp add: demo_defs launch_result_def command_result_of_def subprocess_run_def)
  have r2: "launch_result ?W2 [] ?gh
      = \<lparr>success = False, stdout = [], stderr = ''boom'', returncode = 2\<rparr>"
    by (simp add: demo_defs launch_result_def command_result_of_def subprocess_run_def)
  note t1 = command_failure_status [of ?E ?D ?W1]
  note t2 = command_failure_status [of ?E ?D ?W2]
  have a: "status (fst (commit_and_push ?E ?D ?W1)) = 500
       \<and> json_get (body (fst (commit_and_push ?E ?D ?W1))) ''details''
           = Some (JStr ''Command timed out after 5 minutes'')"
    using t1 [THEN conjunct1, rule_format, of 1] L1 l0 r1 by simp
  have b: "status (fst (copilot_commit_push_workflow ?E ?D ?W2)) = 500
       \<and> json_get (body (fst (copilot_commit_push_workflow ?E ?D ?W2))) ''details'' = Some (JStr ''boom'')"
    using t2 [THEN conjunct2, THEN conjunct1, rule_format, of 0] L2 l0 r2 by simp
  have c: "status (fst (execute_copilot_route ?E ?D ?W2)) = 200
       \<and> json_get (body (fst (execute_copilot_route ?E ?D ?W2))) ''error'' = Some (JStr ''boom'')"
    using t2 [THEN conjunct2, THEN conjunct2, rule_format, OF L3] g l0 r2 by auto
  show ?thesis using L1 L2 L3 a b c r1 by simp
qed

text \<open>
  C3. The failure response of a multi-step workflow is to carry every result gathered
  so far. \<^verbatim>\<open>commit_and_push\<close> misses it: the route fills the dictionary
  \<^verbatim>\<open>results\<close> step by step and then returns without it. With a repository
  where \<^verbatim>\<open>git add\<close> succeeds and \<^verbatim>\<open>git commit\<close> exits with 1, the 500 response has
  the keys \<^verbatim>\<open>details\<close> and \<^verbatim>\<open>error\<close> only: neither the result of the staging step
  nor that of the commit step is in it. The full workflow, in the same world, returns both
  under \<^verbatim>\<open>workflow_results\<close>.
\<close>

theorem commit_failure_drops_results:
  "launched (snd (commit_and_push (demo_env None) (demo_request ''demo'')
                    (demo_world (only [''git'', ''commit''] (exits 1 [] ''nothing to commit'')))))
     = [([JStr ''git'', JStr ''add'', JStr ''-A''], ''/var/repos/demo''),
        ([JStr ''git'', JStr ''commit'', JStr ''-m'', JStr ''fix''], ''/var/repos/demo'')]
   \<and> fst (commit_and_push (demo_env None) (demo_request ''demo'')
            (demo_world (only [''git'', ''commit''] (exits 1 [] ''nothing to commit''))))
       = \<lparr>status = 500,
          body = JObj [(''details'', JStr ''nothing to commit''),
                       (''error'', JStr ''Failed to commit'')]\<rparr>
   \<and> json_keys (body (fst (commit_and_push (demo_env None) (demo_request ''demo'')
            (demo_world (only [''git'', ''commit''] (exits 1 [] ''nothing to commit''))))))
       = [''details'', ''error'']
   \<and> map_option json_keys
        (json_get (body (fst (copilot_commit_push_workflow (demo_env None) (demo_request ''demo'')
            (demo_world (only [''git'', ''commit''] (exits 1 [] ''nothing to commit'')))))) ''workflow_results'')
       = Some [''add'', ''commit'', ''copilot'']"
  by (simp add: commit_and_push_def copilot_commit_push_workflow_def demo_defs eval_defs)

section \<open>The workflow results\<close>

text \<open>
  Helper lemmas on \<open>run_until_failure\<close>, for any list of steps: the names recorded are
  an initial segment of the steps' names, and every result but the last is a success.
\<close>

lemma run_until_failure_length:
  "length (fst (run_until_failure steps w)) \<le> length steps"
proof (induction steps arbitrary: w)
  case Nil
  then show ?case by simp
next
  case (Cons s steps)
  obtain name step where s: "s = (name, step)" by (cases s)
  obtain out w' where o: "step w = (out, w')" by (cases "step w")
  show ?case
  proof (cases out)
    case (Raises e)
    with s o show ?thesis by simp
  next
    case (Returns r)
    with s o Cons.IH [of w'] show ?thesis
      by (simp add: case_prod_unfold Let_def)
  qed
qed

lemma run_until_failure_names:
  "map fst (fst (run_until_failure steps w))
     = take (length (fst (run_until_failure steps w))) (map fst steps)"
proof (induction steps arbitrary: w)
  case Nil
  then show ?case by simp
next
  case (Cons s steps)
  obtain name step where s: "s = (name, step)" by (cases s)
  obtain out w' where o: "step w = (out, w')" by (cases "step w")
  show ?case
  proof (cases out)
    case (Raises e)
    with s o show ?thesis by simp
  next
    case (Returns r)
    with s o Cons.IH [of w'] show ?thesis
      by (simp add: case_prod_unfold Let_def)
  qed
qed

lemma run_until_failure_butlast:
  "\<forall>x \<in> set (butlast (fst (run_until_failure steps w))). success (snd x)"
proof (induction steps arbitrary: w)
  case Nil
  then show ?case by simp
next
  case (Cons s steps)
  obtain name step where s: "s = (name, step)" by (cases s)
  obtain out w' where o: "step w = (out, w')" by (cases "step w")
  show ?case
  proof (cases out)
    case (Raises e)
    with s o show ?thesis by simp
  next
    case (Returns r)
    with s o Cons.IH [of w'] show ?thesis
      by (auto simp: case_prod_unfold Let_def split: if_splits)
  qed
qed


text \<open>Helper lemmas: the steps of the full workflow, one by one, on plain \<^verbatim>\<open>files\<close>.\<close>

lemma plain_files_commands:
  assumes "plain_files names"
  shows "\<exists>g. copilot_command text names = Returns g" and "\<exists>a. add_command names = Returns a"
  using assms
  by (auto simp: plain_files_def copilot_command_def add_command_def str_join_def list_add_def
      split: json.splits if_splits)

lemma workflow_steps:
  fixes env data w name g a
  defines "ex \<equiv> CopilotExecutor (os_path_join (REPOS_BASE_PATH env) name)"
  defines "h \<equiv> launched w"
  defines "c0 \<equiv> (g, repo_path ex)"
  defines "c1 \<equiv> (a, repo_path ex)"
  defines "c2 \<equiv> (commit_command (dict_get (commit_message data)), repo_path ex)"
  defines "c3 \<equiv> (push_command (dict_get (branch data)) ''origin'', repo_path ex)"
  defines "r0 \<equiv> launch_result w h c0"
  defines "r1 \<equiv> launch_result w (h @ [c0]) c1"
  defines "r2 \<equiv> launch_result w (h @ [c0, c1]) c2"
  defines "r3 \<equiv> launch_result w (h @ [c0, c1, c2]) c3"
  assumes "copilot_command (dict_get (prompt data)) (dict_get (files data)) = Returns g"
    "add_command (dict_get (files data)) = Returns a"
  shows "fst (run_until_failure
               [(''copilot'', execute_copilot ex (dict_get (prompt data)) (dict_get (files data))),
                (''add'', git_add ex (dict_get (files data))),
                (''commit'', git_commit ex (dict_get (commit_message data))),
                (''push'', git_push ex (dict_get (branch data)) ''origin'')]
               (w\<lparr>probed := p\<rparr>)) =
    (if \<not> success r0 then [(''copilot'', r0)]
     else if \<not> success r1 then [(''copilot'', r0), (''add'', r1)]
     else if \<not> success r2 then [(''copilot'', r0), (''add'', r1), (''commit'', r2)]
     else [(''copilot'', r0), (''add'', r1), (''commit'', r2), (''push'', r3)])"
  using assms(11,12)
  by (simp add: step_nf ex_def h_def c0_def c1_def c2_def c3_def r0_def r1_def r2_def r3_def)

text \<open>
  C9, as stated, fails in three ways. The generation step is recorded under the key
  \<^verbatim>\<open>copilot\<close>; no key \<^verbatim>\<open>generate\<close> exists. The keys reach the client in ascending
  order (\<^verbatim>\<open>add\<close>, \<^verbatim>\<open>commit\<close>, \<^verbatim>\<open>copilot\<close>, \<^verbatim>\<open>push\<close>), not in the order of the
  steps. And a request whose \<^verbatim>\<open>files\<close> is the string \<^verbatim>\<open>a.py\<close> passes both
  validations and runs the assistant, which succeeds; staging then raises while it builds
  its command line, and the 500 response carries no \<^verbatim>\<open>workflow_results\<close> at all.
\<close>

theorem workflow_results_counterexample:
  "status (fst (copilot_commit_push_workflow (demo_env None) (demo_request ''demo'')
                  (demo_world (only [] (exits 0 ''done'' []))))) = 200
   \<and> map_option json_keys
        (json_get (body (fst (copilot_commit_push_workflow (demo_env None) (demo_request ''demo'')
            (demo_world (only [] (exits 0 ''done'' [])))))) ''workflow_results'')
       = Some [''add'', ''commit'', ''copilot'', ''push'']
   \<and> map_option json_keys
        (json_get (body (fst (copilot_commit_push_workflow (demo_env None) (demo_request ''demo'')
            (demo_world (only [] (exits 0 ''done'' [])))))) ''workflow_results'')
       \<noteq> Some [''generate'', ''add'', ''commit'', ''push'']
   \<and> fst (validate_request (demo_env None) ((demo_request ''demo'')\<lparr>files := Some (JStr ''a.py'')\<rparr>))
   \<and> launched (snd (copilot_commit_push_workflow (demo_env None)
                      ((demo_request ''demo'')\<lparr>files := Some (JStr ''a.py'')\<rparr>)
                      (demo_world (only [] (exits 0 ''done'' [])))))
       = [([JStr ''gh'', JStr ''copilot'', JStr ''suggest'', JStr ''--files'', JStr ''a,.,p,y'',
            JStr ''add tests''], ''/var/repos/demo'')]
   \<and> fst (copilot_commit_push_workflow (demo_env None)
            ((demo_request ''demo'')\<lparr>files := Some (JStr ''a.py'')\<rparr>)
            (demo_world (only [] (exits 0 ''done'' []))))
       = \<lparr>status = 500,
          body = JObj [(''error'', JStr (''can only concatenate list (not '' @ [CHR 0x22] @ ''str''
                                         @ [CHR 0x22] @ '') to list''))]\<rparr>
   \<and> json_get (body (fst (copilot_commit_push_workflow (demo_env None)
            ((demo_request ''demo'')\<lparr>files := Some (JStr ''a.py'')\<rparr>)
            (demo_world (only [] (exits 0 ''done'' [])))))) ''workflow_results'' = None"
  by (simp add: copilot_commit_push_workflow_def demo_defs eval_defs)

text \<open>
  C9, amended. For every full-workflow request that passes request validation and
  repository validation and whose \<^verbatim>\<open>files\<close> is falsy or a list of strings, the
  \<^verbatim>\<open>workflow_results\<close> of the response is the mapping that running the four steps in
  order, up to and including the first failing one, produces. The route fills it in the
  order of the steps, so its keys are an initial segment of \<^verbatim>\<open>copilot\<close>, \<^verbatim>\<open>add\<close>,
  \<^verbatim>\<open>commit\<close>, \<^verbatim>\<open>push\<close>; the client receives them in ascending order; each key is
  mapped to the result of its step. The mapping is never empty; every entry but the last
  is a success; the response is a 200 with all four entries, all successful, or a 500
  whose last entry is the failing step.
\<close>

theorem workflow_results_shape:
  assumes "fst (validate_request env data)"
    and "repo_name data = Some name"
    and "truthy (dict_get (prompt data))"
    and "truthy (dict_get (commit_message data))"
    and "plain_files (dict_get (files data))"
    and "ex = CopilotExecutor (os_path_join (REPOS_BASE_PATH env) name)"
    and "fst (validate_repo ex w) = Returns ()"
    and "rs = fst (run_until_failure
                    [(''copilot'', execute_copilot ex (dict_get (prompt data)) (dict_get (files data))),
                     (''add'', git_add ex (dict_get (files data))),
                     (''commit'', git_commit ex (dict_get (commit_message data))),
                     (''push'', git_push ex (dict_get (branch data)) ''origin'')]
                    (snd (validate_repo ex w)))"
  shows "json_get (body (fst (copilot_commit_push_workflow env data w))) ''workflow_results''
           = Some (sort_keys (results_dict rs))
       \<and> map fst rs = take (length rs) [''copilot'', ''add'', ''commit'', ''push'']
       \<and> json_keys (sort_keys (results_dict rs))
           = filter (\<lambda>k. k \<in> set (map fst rs)) [''add'', ''commit'', ''copilot'', ''push'']
       \<and> (\<forall>x \<in> set rs. json_get (sort_keys (results_dict rs)) (fst x)
                           = Some (sort_keys (result_dict (snd x))))
       \<and> rs \<noteq> [] \<and> length rs \<le> 4
       \<and> (\<forall>x \<in> set (butlast rs). success (snd x))
       \<and> (status (fst (copilot_commit_push_workflow env data w)) = 200
             \<and> length rs = 4 \<and> success (snd (last rs))
           \<or> status (fst (copilot_commit_push_workflow env data w)) = 500
             \<and> \<not> success (snd (last rs)))"
proof -
  let ?ex = "CopilotExecutor (os_path_join (REPOS_BASE_PATH env) name)"
  obtain p where p: "snd (validate_repo ex w) = w\<lparr>probed := p\<rparr>"
    using validate_repo_world by blast
  with assms(7) have v: "validate_repo ?ex w = (Returns (), w\<lparr>probed := p\<rparr>)"
    unfolding assms(6) by (metis prod.collapse)
  obtain g where g: "copilot_command (dict_get (prompt data)) (dict_get (files data)) = Returns g"
    using plain_files_commands(1) [OF assms(5)] by blast
  obtain a where a: "add_command (dict_get (files data)) = Returns a"
    using plain_files_commands(2) [OF assms(5)] by blast
  note route = workflow_reached [OF assms(1-4) v g a]
  have rs: "rs = fst (run_until_failure
                    [(''copilot'', execute_copilot ?ex (dict_get (prompt data)) (dict_get (files data))),
                     (''add'', git_add ?ex (dict_get (files data))),
                     (''commit'', git_commit ?ex (dict_get (commit_message data))),
                     (''push'', git_push ?ex (dict_get (branch data)) ''origin'')]
                    (w\<lparr>probed := p\<rparr>))"
    using assms(6,8) p by simp
  note steps = rs [unfolded workflow_steps [OF g a, where env = env and name = name and w = w and p = p]]
  have c1: "json_get (body (fst (copilot_commit_push_workflow env data w))) ''workflow_results''
           = Some (sort_keys (results_dict rs))"
    unfolding route steps by simp
  have c2: "map fst rs = take (length rs) [''copilot'', ''add'', ''commit'', ''push'']"
    unfolding steps by simp
  have c3: "json_keys (sort_keys (results_dict rs))
           = filter (\<lambda>k. k \<in> set (map fst rs)) [''add'', ''commit'', ''copilot'', ''push'']"
    unfolding steps by (simp add: results_dict_def json_keys_def)
  have c4: "\<forall>x \<in> set rs. json_get (sort_keys (results_dict rs)) (fst x)
                           = Some (sort_keys (result_dict (snd x)))"
    unfolding steps by (simp add: results_dict_def json_get_def)
  have c5: "rs \<noteq> []" and c6: "length rs \<le> 4"
    unfolding steps by simp_all
  have c7: "\<forall>x \<in> set (butlast rs). success (snd x)"
    unfolding assms(8) by (rule run_until_failure_butlast)
  have c8: "status (fst (copilot_commit_push_workflow env data w)) = 200
             \<and> length rs = 4 \<and> success (snd (last rs))
           \<or> status (fst (copilot_commit_push_workflow env data w)) = 500
             \<and> \<not> success (snd (last rs))"
    unfolding route steps by simp
  from c1 c2 c3 c4 c5 c6 c7 c8 show ?thesis by (intro conjI)
qed


theorem workflow_results_shape_witness:
  "fst (validate_request (demo_env None) ((demo_request ''demo'')\<lparr>files := Some (JList [JStr ''a.py''])\<rparr>))
   \<and> plain_files (JList [JStr ''a.py''])
   \<and> fst (validate_repo (CopilotExecutor ''/var/repos/demo'')
            (demo_world (only [''git'', ''commit''] (exits 1 [] ''nothing to commit'')))) = Returns ()
   \<and> launched (snd (copilot_commit_push_workflow (demo_env None)
            ((demo_request ''demo'')\<lparr>files := Some (JList [JStr ''a.py''])\<rparr>)
            (demo_world (only [''git'', ''commit''] (exits 1 [] ''nothing to commit'')))))
       = [([JStr ''gh'', JStr ''copilot'', JStr ''suggest'', JStr ''--files'', JStr ''a.py'',
            JStr ''add tests''], ''/var/repos/demo''),
          ([JStr ''git'', JStr ''add'', JStr ''a.py''], ''/var/repos/demo''),
          ([JStr ''git'', JStr ''commit'', JStr ''-m'', JStr ''fix''], ''/var/repos/demo'')]
   \<and> json_get (body (fst (copilot_commit_push_workflow (demo_env None)
            ((demo_request ''demo'')\<lparr>files := Some (JList [JStr ''a.py''])\<rparr>)
            (demo_world (only [''git'', ''commit''] (exits 1 [] ''nothing to commit''))))))
        ''workflow_results''
       = Some (JObj
           [(''add'', JObj [(''returncode'', JInt 0), (''stderr'', JStr []),
                            (''stdout'', JStr ''ok''), (''success'', JBool True)]),
            (''commit'', JObj [(''returncode'', JInt 1), (''stderr'', JStr ''nothing to commit''),
                               (''stdout'', JStr []), (''success'', JBool False)]),
            (''copilot'', JObj [(''returncode'', JInt 0), (''stderr'', JStr []),
                                (''stdout'', JStr ''ok''), (''success'', JBool True)])])
   \<and> status (fst (copilot_commit_push_workflow (demo_env None)
            ((demo_request ''demo'')\<lparr>files := Some (JList [JStr ''a.py''])\<rparr>)
            (demo_world (only [''git'', ''commit''] (exits 1 [] ''nothing to commit''))))) = 500"
proof -
  let ?E = "demo_env None"
  let ?D = "(demo_request ''demo'')\<lparr>files := Some (JList [JStr ''a.py''])\<rparr>"
  let ?W = "demo_world (only [''git'', ''commit''] (exits 1 [] ''nothing to commit''))"
  let ?ex = "CopilotExecutor ''/var/repos/demo''"
  let ?rs = "fst (run_until_failure
                    [(''copilot'', execute_copilot ?ex (dict_get (prompt ?D)) (dict_get (files ?D))),
                     (''add'', git_add ?ex (dict_get (files ?D))),
                     (''commit'', git_commit ?ex (dict_get (commit_message ?D))),
                     (''push'', git_push ?ex (dict_get (branch ?D)) ''origin'')]
                    (snd (validate_repo ?ex ?W)))"
  have h1: "fst (validate_request ?E ?D)"
    and h2: "repo_name ?D = Some ''demo''"
    and h3: "truthy (dict_get (prompt ?D))"
    and h4: "truthy (dict_get (commit_message ?D))"
    and h5: "plain_files (dict_get (files ?D))"
    and h6: "?ex = CopilotExecutor (os_path_join (REPOS_BASE_PATH ?E) ''demo'')"
    and h7: "fst (validate_repo ?ex ?W) = Returns ()"
    by (simp_all add: demo_defs eval_defs plain_files_def)
  have f: "dict_get (files ?D) = JList [JStr ''a.py'']"
    by (simp add: demo_defs dict_get_def)
  have rs: "?rs =
           [(''copilot'', \<lparr>success = True, stdout = ''ok'', stderr = [], returncode = 0\<rparr>),
            (''add'', \<lparr>success = True, stdout = ''ok'', stderr = [], returncode = 0\<rparr>),
            (''commit'', \<lparr>success = False, stdout = [], stderr = ''nothing to commit'', returncode = 1\<rparr>)]"
    by (simp add: demo_defs eval_defs)
  have l: "launched (snd (copilot_commit_push_workflow ?E ?D ?W))
       = [([JStr ''gh'', JStr ''copilot'', JStr ''suggest'', JStr ''--files'', JStr ''a.py'',
            JStr ''add tests''], ''/var/repos/demo''),
          ([JStr ''git'', JStr ''add'', JStr ''a.py''], ''/var/repos/demo''),
          ([JStr ''git'', JStr ''commit'', JStr ''-m'', JStr ''fix''], ''/var/repos/demo'')]"
    by (simp add: copilot_commit_push_workflow_def demo_defs eval_defs)
  from workflow_results_shape [OF h1 h2 h3 h4 h5 h6 h7 refl] h1 h5 h7 l f show ?thesis
    unfolding rs by (simp add: results_dict_def result_dict_def)
qed

section \<open>The allow-list\<close>

text \<open>
  Helper lemmas: \<open>split_str\<close> is the inverse of \<open>join_str\<close>, its segments hold no
  separator, and its first segment is empty exactly when the string is empty or starts
  with the separator.
\<close>

lemma split_str_nonempty [simp]: "split_str sep s \<noteq> []"
  by (induction s) (simp_all add: Let_def)

lemma join_str_Cons: "xs \<noteq> [] \<Longrightarrow> join_str sep (x # xs) = x @ sep @ join_str sep xs"
  by (cases xs) simp_all

lemma join_split_str: "join_str [sep] (split_str sep s) = s"
proof (induction s)
  case Nil
  then show ?case by simp
next
  case (Cons c cs)
  obtain x xs where r: "split_str sep cs = x # xs"
    by (cases "split_str sep cs") simp_all
  show ?case
  proof (cases "c = sep")
    case True
    with Cons r show ?thesis by (simp add: join_str_Cons)
  next
    case False
    with Cons r show ?thesis by (cases xs) simp_all
  qed
qed

lemma split_str_no_sep: "seg \<in> set (split_str sep s) \<Longrightarrow> sep \<notin> set seg"
proof (induction s arbitrary: seg)
  case Nil
  then show ?case by simp
next
  case (Cons c cs)
  obtain x xs where r: "split_str sep cs = x # xs"
    by (cases "split_str sep cs") simp_all
  with Cons show ?case
    by (auto simp: Let_def split: if_splits)
qed

lemma hd_split_str: "hd (split_str sep s) = [] \<longleftrightarrow> s = [] \<or> hd s = sep"
  by (cases s) (simp_all add: Let_def)

text \<open>
  Helper lemma: where the guard of \<^verbatim>\<open>validate_request\<close> is on (the first entry of the
  list is not empty), a non-empty name that is not in the list is answered with 400 by
  all three routes, in an untouched world: nothing was probed, nothing was launched.
\<close>

lemma not_allowed_rejected:
  assumes "hd (ALLOWED_REPOS env) \<noteq> []" and "repo_name data = Some name"
    and "name \<notin> set (ALLOWED_REPOS env)" and n: "name \<noteq> []"
  shows "\<not> fst (validate_request env data)"
    and "execute_copilot_route env data w
           = (jsonify [(''error'', JStr (''Repository '' @ name @ '' is not allowed''))] 400, w)"
    and "commit_and_push env data w
           = (jsonify [(''error'', JStr (''Repository '' @ name @ '' is not allowed''))] 400, w)"
    and "copilot_commit_push_workflow env data w
           = (jsonify [(''error'', JStr (''Repository '' @ name @ '' is not allowed''))] 400, w)"
proof -
  have ne: "ALLOWED_REPOS env \<noteq> []" by (simp add: ALLOWED_REPOS_def)
  have v: "validate_request env data =
             (if name = [] then (False, Some ''repo_name is required'')
              else (False, Some (''Repository '' @ name @ '' is not allowed'')))"
    using assms ne by (simp add: validate_request_def truthy_str_def)
  from v n show f: "\<not> fst (validate_request env data)" by simp
  from v n show "execute_copilot_route env data w
           = (jsonify [(''error'', JStr (''Repository '' @ name @ '' is not allowed''))] 400, w)"
    "commit_and_push env data w
           = (jsonify [(''error'', JStr (''Repository '' @ name @ '' is not allowed''))] 400, w)"
    "copilot_commit_push_workflow env data w
           = (jsonify [(''error'', JStr (''Repository '' @ name @ '' is not allowed''))] 400, w)"
    by (simp_all add: rejected [OF f] json_opt_def)
qed

text \<open>
  C8. A configured, non-empty allow-list is to refuse, with a 400 and before anything
  touches the filesystem, every name that is not in it. The guard of
  \<^verbatim>\<open>validate_request\<close> misses a case: it takes the allow-list for unconfigured
  whenever its first entry is empty. With
  \<^verbatim>\<open>ALLOWED_REPOS=",alpha"\<close> the list is \<^verbatim>\<open>['', 'alpha']\<close>, the name \<^verbatim>\<open>beta\<close> is
  not in it, and yet a request for \<^verbatim>\<open>beta\<close> passes validation: the route resolves the
  path and probes the filesystem for \<^verbatim>\<open>/var/repos/beta\<close>, and the answer is the 500 of
  the repository validation, not a 400.
\<close>

theorem leading_comma_disables_allow_list:
  "ALLOWED_REPOS (demo_env (Some '',alpha'')) = [[], ''alpha'']
   \<and> ''beta'' \<notin> set (ALLOWED_REPOS (demo_env (Some '',alpha'')))
   \<and> validate_request (demo_env (Some '',alpha'')) (demo_request ''beta'') = (True, None)
   \<and> probed (snd (execute_copilot_route (demo_env (Some '',alpha'')) (demo_request ''beta'')
                    (demo_world (only [] (exits 0 [] [])))))
       = [''/var/repos/beta'']
   \<and> fst (execute_copilot_route (demo_env (Some '',alpha'')) (demo_request ''beta'')
            (demo_world (only [] (exits 0 [] []))))
       = \<lparr>status = 500,
          body = JObj [(''error'', JStr ''Repository path does not exist: /var/repos/beta'')]\<rparr>"
  by (simp add: execute_copilot_route_def demo_defs eval_defs)

text \<open>
  C10, as stated, fails in both directions. With the allow-list
  \<^verbatim>\<open>alpha,\<close> the empty name is one of the segments and is refused (a name is
  required); with the allow-list \<^verbatim>\<open>,alpha\<close> the name \<^verbatim>\<open>beta\<close> is no segment and is
  accepted.
\<close>

theorem allow_list_iff_counterexample:
  "[] \<in> set (split_str CHR '','' ''alpha,'')
   \<and> \<not> fst (validate_request (demo_env (Some ''alpha,'')) (demo_request []))
   \<and> ''beta'' \<notin> set (split_str CHR '','' '',alpha'')
   \<and> fst (validate_request (demo_env (Some '',alpha'')) (demo_request ''beta''))"
  by (simp add: demo_defs eval_defs)

text \<open>
  C10, amended. When the allow-list string is not empty and does not start with a comma,
  request validation accepts a request exactly when its \<^verbatim>\<open>repo_name\<close> is a non-empty
  string equal, character for character, to one of the comma-separated segments of the
  allow-list string; nothing is trimmed. The segments are those of \<open>split_str\<close>: joined
  by commas they give the string back, and none holds a comma.
\<close>

theorem allow_list_exact_match:
  assumes "s = getenv (env_ALLOWED_REPOS env) []" and "s \<noteq> []" and "hd s \<noteq> CHR '',''"
  shows "ALLOWED_REPOS env = split_str CHR '','' s
       \<and> join_str '','' (split_str CHR '','' s) = s
       \<and> (\<forall>seg \<in> set (split_str CHR '','' s). CHR '','' \<notin> set seg)
       \<and> (fst (validate_request env data)
            \<longleftrightarrow> (\<exists>name. repo_name data = Some name \<and> name \<noteq> []
                         \<and> name \<in> set (split_str CHR '','' s)))"
proof -
  have a: "ALLOWED_REPOS env = split_str CHR '','' s"
    using assms(1) by (simp add: ALLOWED_REPOS_def)
  have h: "hd (ALLOWED_REPOS env) \<noteq> []"
    unfolding a using assms(2,3) by (simp add: hd_split_str)
  have b: "join_str '','' (split_str CHR '','' s) = s"
    by (rule join_split_str)
  have c: "\<forall>seg \<in> set (split_str CHR '','' s). CHR '','' \<notin> set seg"
    using split_str_no_sep by blast
  have d: "fst (validate_request env data)
            \<longleftrightarrow> (\<exists>name. repo_name data = Some name \<and> name \<noteq> []
                         \<and> name \<in> set (split_str CHR '','' s))"
    using h split_str_nonempty [of "CHR '',''" s] unfolding a [symmetric]
    by (auto simp: validate_request_def truthy_str_def split: option.splits)
  from a b c d show ?thesis by (intro conjI)
qed

theorem allow_list_exact_match_witness:
  "getenv (env_ALLOWED_REPOS (demo_env (Some ''alpha, beta''))) [] = ''alpha, beta''
   \<and> hd ''alpha, beta'' \<noteq> CHR '',''
   \<and> split_str CHR '','' ''alpha, beta'' = [''alpha'', '' beta'']
   \<and> fst (validate_request (demo_env (Some ''alpha, beta'')) (demo_request '' beta''))
   \<and> \<not> fst (validate_request (demo_env (Some ''alpha, beta'')) (demo_request ''beta''))"
proof -
  let ?E = "demo_env (Some ''alpha, beta'')"
  have h1: "''alpha, beta'' = getenv (env_ALLOWED_REPOS ?E) []"
    by (simp add: demo_env_def getenv_def)
  have h2: "''alpha, beta'' \<noteq> []" and h3: "hd ''alpha, beta'' \<noteq> CHR '',''"
    by simp_all
  have sp: "split_str CHR '','' ''alpha, beta'' = [''alpha'', '' beta'']"
    by (simp add: Let_def)
  note t = allow_list_exact_match [OF h1 h2 h3]
  have y: "fst (validate_request ?E (demo_request '' beta''))"
    using t [of "demo_request '' beta''"] unfolding sp by (simp add: demo_request_def)
  have n: "\<not> fst (validate_request ?E (demo_request ''beta''))"
    using t [of "demo_request ''beta''"] unfolding sp by (simp add: demo_request_def)
  from h1 h3 sp y n show ?thesis by simp
qed

end
